theory Spec2Isabelle
  imports Complex_Main
begin

section \<open>Data model\<close>

text \<open>
  The embedding follows \<^verbatim>\<open>atom/database/db.py\<close>, \<^verbatim>\<open>atom/responders/responder.py\<close>,
  \<^verbatim>\<open>atom/responders/einstein/einstein.py\<close> and the Einstein JSON notice class.
  Python floats (degrees) are modelled as exact reals. A \<^verbatim>\<open>datetime\<close> is an instant
  counted in microseconds; SQLite compares the ISO text of two instants, which orders them
  as the instants themselves for a common UTC offset. A Python exception is a value of
  \<open>error\<close>; a call that raises returns \<open>Inl\<close> together with the world as it was when
  the exception left the call. \<open>ProgrammingError\<close> and \<open>OperationalError\<close> are the
  ones of \<^verbatim>\<open>sqlite3\<close>,
  \<open>SchedulerError\<close> stands for whatever a call to the observation scheduler raises and
  \<open>RequestException\<close> for whatever \<^verbatim>\<open>requests.post\<close> raises.
\<close>

datatype error =
    AttributeError
  | TypeError
  | ValueError
  | IndexError
  | OverflowError
  | ProgrammingError
  | OperationalError
  | SchedulerError
  | RequestException

type_synonym time = int

text \<open>A deserialized JSON value, as \<^verbatim>\<open>json.loads\<close> returns it (\<open>JNull\<close> is \<^verbatim>\<open>None\<close>).\<close>

datatype json =
    JNull
  | JBool bool
  | JInt int
  | JFloat real
  | JStr string
  | JArr "json list"
  | JObj "(string \<times> json) list"

text \<open>
  The part of an astropy \<^verbatim>\<open>SkyCoord\<close> the program reads: \<^verbatim>\<open>ra.deg\<close>, \<^verbatim>\<open>dec.deg\<close>
  and \<^verbatim>\<open>galactic.b\<close> in degrees. The galactic latitude is computed by astropy from the
  other two; it is carried as a field.
\<close>

record skycoord =
  ra :: real
  dec :: real
  galactic_b :: real

text \<open>The attributes of an \<^verbatim>\<open>EinsteinJsonNotice\<close> after a successful \<^verbatim>\<open>parse\<close>.\<close>

record notice =
  notice_id :: int
  observatory :: string
  instrument :: json
  image_snr :: json
  event_time :: time
  coords :: skycoord
  coords_error_deg :: json
  astrophysical :: bool

text \<open>
  An observation identifier as Python sees it: the scheduler's \<^verbatim>\<open>id\<close> and the value read
  back from the \<^verbatim>\<open>obs_id\<close> column are an \<^verbatim>\<open>int\<close> or a \<^verbatim>\<open>str\<close> (the table
  declarations are not part of the sources).
\<close>

datatype obs_ref = ObsInt int | ObsStr string

text \<open>Rows of the three tables. A nullable column is an \<open>option\<close>.\<close>

record notice_row =
  n_id :: int
  n_trigger_id :: int
  n_transient_id :: "int option"
  n_trigger_time :: time
  n_observatory :: string
  n_instrument :: json
  n_ra_deg :: real
  n_dec_deg :: real
  n_pos_error_deg :: json

record transient_row =
  t_id :: int
  t_event_time :: time
  t_ra_deg :: real
  t_dec_deg :: real
  t_pos_error_deg :: json
  t_astrophysical :: int

record response_row =
  r_id :: int
  r_obs_id :: obs_ref
  r_transient_id :: "int option"

text \<open>What the scheduler returns for an observation: its id and its state.\<close>

record observation =
  obs_id :: obs_ref
  obs_state :: string

text \<open>
  A rendered notification. The text itself is not modelled, only what it is rendered from:
  the notice and the observation ids.
\<close>

datatype message =
    NewEventMessage notice obs_ref
  | UpdatedEventMessage notice "string list"

text \<open>A call made to a collaborator outside the program, in the order the calls are made.\<close>

datatype call =
    SchedulerAdd notice
  | SchedulerGet obs_ref
  | SchedulerUpdate obs_ref real real
  | NotifierSend nat message

text \<open>
  What \<^verbatim>\<open>requests.post\<close> does in a notifier's \<^verbatim>\<open>send\<close>: it returns a response
  object carrying an HTTP status (any status; \<^verbatim>\<open>send\<close> does not inspect it), or raises.
\<close>

datatype send_outcome = HttpResponse nat | SendRaises

text \<open>
  The collaborators. \<open>None\<close> from a scheduler function is a raised exception.
  \<open>notifiers\<close> is the list built by \<^verbatim>\<open>read_notification_settings\<close>.
\<close>

record env =
  scheduler_add :: "notice \<Rightarrow> observation option"
  scheduler_get :: "obs_ref \<Rightarrow> observation option"
  scheduler_update :: "obs_ref \<Rightarrow> notice \<Rightarrow> observation option"
  notifiers :: "(message \<Rightarrow> send_outcome) list"

text \<open>The database file and the trace of calls to collaborators.\<close>

record world =
  notice_table :: "notice_row list"
  transient_table :: "transient_row list"
  response_table :: "response_row list"
  calls :: "call list"

section \<open>Database layer\<close>

text \<open>
  Binding the parameters of a statement. \<^verbatim>\<open>sqlite3\<close> binds them in order and raises at
  the first it cannot bind: \<^verbatim>\<open>OverflowError\<close> for a Python \<^verbatim>\<open>int\<close> outside the signed
  64-bit range, \<^verbatim>\<open>ProgrammingError\<close> for a \<^verbatim>\<open>list\<close> or a \<^verbatim>\<open>dict\<close>. \<^verbatim>\<open>None\<close>,
  \<^verbatim>\<open>bool\<close>, \<^verbatim>\<open>float\<close>, \<^verbatim>\<open>str\<close> and \<^verbatim>\<open>datetime\<close> are bound. Nothing is written
  when a parameter is refused.
\<close>

definition bind_int :: "int \<Rightarrow> error option" where
  "bind_int i = (if - (2 ^ 63) \<le> i \<and> i < 2 ^ 63 then None else Some OverflowError)"

definition bind_json :: "json \<Rightarrow> error option" where
  "bind_json v =
     (case v of
        JInt i \<Rightarrow> bind_int i
      | JArr _ \<Rightarrow> Some ProgrammingError
      | JObj _ \<Rightarrow> Some ProgrammingError
      | _ \<Rightarrow> None)"

definition bind_obs :: "obs_ref \<Rightarrow> error option" where
  "bind_obs obs = (case obs of ObsInt i \<Rightarrow> bind_int i | ObsStr _ \<Rightarrow> None)"

fun bind_parameters :: "error option list \<Rightarrow> error option" where
  "bind_parameters [] = None"
| "bind_parameters (None # rest) = bind_parameters rest"
| "bind_parameters (Some err # rest) = Some err"

text \<open>
  \<^verbatim>\<open>SELECT * FROM table WHERE col = ?\<close> on a column of integers: the value is bound, and a
  row is selected when its column holds a value equal to it; \<^verbatim>\<open>NULL\<close> (a column or a
  parameter that is \<open>None\<close>) equals nothing. Rows come in table order.
\<close>

definition get :: "'r list \<Rightarrow> ('r \<Rightarrow> int option) \<Rightarrow> int option \<Rightarrow> error + 'r list" where
  "get table col val =
     (case bind_parameters [case val of None \<Rightarrow> None | Some v \<Rightarrow> bind_int v] of
        Some err \<Rightarrow> Inl err
      | None \<Rightarrow> Inr (filter (\<lambda>r. val \<noteq> None \<and> col r = val) table))"

definition fetchone :: "'r list \<Rightarrow> 'r option" where
  "fetchone rows = (case rows of [] \<Rightarrow> None | r # _ \<Rightarrow> Some r)"

text \<open>
  \<^verbatim>\<open>cursor.lastrowid\<close> of an insert into a table with the given row ids: SQLite assigns
  one more than the largest row id, and 1 in an empty table. A row id, whether returned by
  an insert or read from a row, is an integer SQLite binds; it is marked \<open>None\<close> in the
  parameter lists below, like the floats, the strings and the datetimes.
\<close>

definition lastrowid :: "int list \<Rightarrow> int" where
  "lastrowid ids = (case ids of [] \<Rightarrow> 1 | i # rest \<Rightarrow> fold max rest i + 1)"

definition Notice_get :: "world \<Rightarrow> (notice_row \<Rightarrow> int option) \<Rightarrow> int option \<Rightarrow> error + notice_row list" where
  "Notice_get w col val = get (notice_table w) col val"

text \<open>
  \<^verbatim>\<open>Notice.add\<close>: the parameters are the values of \<^verbatim>\<open>data\<close> in the order of its keys
  (\<^verbatim>\<open>trigger_id\<close>, \<^verbatim>\<open>transient_id\<close>, \<^verbatim>\<open>trigger_time\<close>, \<^verbatim>\<open>observatory\<close>,
  \<^verbatim>\<open>instrument\<close>, \<^verbatim>\<open>ra_deg\<close>, \<^verbatim>\<open>dec_deg\<close>, \<^verbatim>\<open>pos_error_deg\<close>).
\<close>

definition Notice_add :: "notice \<Rightarrow> int option \<Rightarrow> world \<Rightarrow> (error + int) \<times> world" where
  "Notice_add n transient_id w =
     (case bind_parameters
             [bind_int (notice_id n), None, None, None,
              bind_json (instrument n), None, None, bind_json (coords_error_deg n)] of
        Some err \<Rightarrow> (Inl err, w)
      | None \<Rightarrow>
          (let i = lastrowid (map n_id (notice_table w)) in
           (Inr i, w\<lparr>notice_table := notice_table w @
              [\<lparr>n_id = i,
                n_trigger_id = notice_id n,
                n_transient_id = transient_id,
                n_trigger_time = event_time n,
                n_observatory = observatory n,
                n_instrument = instrument n,
                n_ra_deg = ra (coords n),
                n_dec_deg = dec (coords n),
                n_pos_error_deg = coords_error_deg n\<rparr>]\<rparr>)))"

definition Response_get :: "world \<Rightarrow> (response_row \<Rightarrow> int option) \<Rightarrow> int option \<Rightarrow> error + response_row list" where
  "Response_get w col val = get (response_table w) col val"

definition Response_add :: "obs_ref \<Rightarrow> int option \<Rightarrow> world \<Rightarrow> (error + int) \<times> world" where
  "Response_add obs transient_id w =
     (case bind_parameters [bind_obs obs, None] of
        Some err \<Rightarrow> (Inl err, w)
      | None \<Rightarrow>
          (let i = lastrowid (map r_id (response_table w)) in
           (Inr i, w\<lparr>response_table := response_table w @
              [\<lparr>r_id = i, r_obs_id = obs, r_transient_id = transient_id\<rparr>]\<rparr>)))"

definition Transient_get :: "world \<Rightarrow> (transient_row \<Rightarrow> int option) \<Rightarrow> int option \<Rightarrow> error + transient_row list" where
  "Transient_get w col val = get (transient_table w) col val"

text \<open>
  \<^verbatim>\<open>Transient.add\<close>: the parameters are \<^verbatim>\<open>event_time\<close>, \<^verbatim>\<open>ra_deg\<close>, \<^verbatim>\<open>dec_deg\<close>,
  \<^verbatim>\<open>pos_error_deg\<close> and \<^verbatim>\<open>int(notice.astrophysical)\<close>.
\<close>

definition Transient_add :: "notice \<Rightarrow> world \<Rightarrow> (error + int) \<times> world" where
  "Transient_add n w =
     (case bind_parameters [None, None, None, bind_json (coords_error_deg n), None] of
        Some err \<Rightarrow> (Inl err, w)
      | None \<Rightarrow>
          (let i = lastrowid (map t_id (transient_table w)) in
           (Inr i, w\<lparr>transient_table := transient_table w @
              [\<lparr>t_id = i,
                t_event_time = event_time n,
                t_ra_deg = ra (coords n),
                t_dec_deg = dec (coords n),
                t_pos_error_deg = coords_error_deg n,
                t_astrophysical = (if astrophysical n then 1 else 0)\<rparr>]\<rparr>)))"

text \<open>
  \<^verbatim>\<open>UPDATE transient SET ... WHERE id = row\<close>, for a row id that is a number: the row id
  is written into the text of the statement, the values of \<^verbatim>\<open>data\<close> are bound.
\<close>

definition update :: "transient_row list \<Rightarrow> int \<Rightarrow> (transient_row \<Rightarrow> transient_row) \<Rightarrow> transient_row list" where
  "update table row data = map (\<lambda>r. if t_id r = row then data r else r) table"

definition Transient_update :: "int \<Rightarrow> notice \<Rightarrow> world \<Rightarrow> (error + unit) \<times> world" where
  "Transient_update transient_id n w =
     (case bind_parameters [None, None, bind_json (coords_error_deg n)] of
        Some err \<Rightarrow> (Inl err, w)
      | None \<Rightarrow>
          (Inr (), w\<lparr>transient_table := update (transient_table w) transient_id
             (\<lambda>r. r\<lparr>t_ra_deg := ra (coords n),
                     t_dec_deg := dec (coords n),
                     t_pos_error_deg := coords_error_deg n\<rparr>)\<rparr>))"

definition Transient_set_false_alarm :: "int \<Rightarrow> world \<Rightarrow> world" where
  "Transient_set_false_alarm transient_id w =
     w\<lparr>transient_table := update (transient_table w) transient_id
          (\<lambda>r. r\<lparr>t_astrophysical := 0\<rparr>)\<rparr>"

text \<open>
  \<^verbatim>\<open>Transient.search\<close>: the \<^verbatim>\<open>WHERE\<close> clause that the three branches build, with
  the parameters each branch binds. \<^verbatim>\<open>x BETWEEN a AND b\<close> is \<open>a \<le> x \<and> x \<le> b\<close>.
\<close>

definition between :: "'a::linorder \<Rightarrow> 'a \<Rightarrow> 'a \<Rightarrow> bool" where
  "between x a b = (a \<le> x \<and> x \<le> b)"

definition Transient_search ::
  "world \<Rightarrow> real \<Rightarrow> real \<Rightarrow> real \<Rightarrow> time \<Rightarrow> time \<Rightarrow> transient_row list" where
  "Transient_search w ra_deg dec_deg range_deg start_time end_time =
     (let ra_min = ra_deg - range_deg;
          ra_max = ra_deg + range_deg;
          dec_min = dec_deg - range_deg;
          dec_max = dec_deg + range_deg;
          ra_condition =
            (if ra_min < 0 then
               (\<lambda>r. between (t_ra_deg r) 0 ra_max \<or> between (t_ra_deg r) (360 + ra_min) 360)
             else if ra_max > 360 then
               (\<lambda>r. between (t_ra_deg r) 0 (ra_max - 360) \<or> between (t_ra_deg r) ra_min 360)
             else
               (\<lambda>r. between (t_ra_deg r) ra_min ra_max))
      in filter (\<lambda>r. between (t_event_time r) start_time end_time
                    \<and> ra_condition r
                    \<and> between (t_dec_deg r) dec_min dec_max)
           (transient_table w))"

section \<open>Responder\<close>

subsection \<open>Scheduler calls (\<^verbatim>\<open>atom/core/skynet/observation.py\<close>)\<close>

text \<open>
  Each call is recorded in \<open>calls\<close> when it is made; a call the scheduler does not
  answer raises.
\<close>

definition record_call :: "call \<Rightarrow> world \<Rightarrow> world" where
  "record_call c w = w\<lparr>calls := calls w @ [c]\<rparr>"

definition Observation_add :: "env \<Rightarrow> notice \<Rightarrow> world \<Rightarrow> (error + observation) \<times> world" where
  "Observation_add e n w =
     (case scheduler_add e n of
        None \<Rightarrow> (Inl SchedulerError, record_call (SchedulerAdd n) w)
      | Some obs \<Rightarrow> (Inr obs, record_call (SchedulerAdd n) w))"

definition Observation_get :: "env \<Rightarrow> obs_ref \<Rightarrow> world \<Rightarrow> (error + observation) \<times> world" where
  "Observation_get e obs w =
     (case scheduler_get e obs of
        None \<Rightarrow> (Inl SchedulerError, record_call (SchedulerGet obs) w)
      | Some ob \<Rightarrow> (Inr ob, record_call (SchedulerGet obs) w))"

definition Observation_update :: "env \<Rightarrow> obs_ref \<Rightarrow> notice \<Rightarrow> world \<Rightarrow> (error + observation) \<times> world" where
  "Observation_update e obs n w =
     (let w' = record_call (SchedulerUpdate obs (ra (coords n) / 15) (dec (coords n))) w in
      case scheduler_update e obs n of
        None \<Rightarrow> (Inl SchedulerError, w')
      | Some ob \<Rightarrow> (Inr ob, w'))"

subsection \<open>\<^verbatim>\<open>Responder\<close> (\<^verbatim>\<open>atom/responders/responder.py\<close>)\<close>

text \<open>
  \<^verbatim>\<open>get_transient\<close>: the first notice row with the trigger id, then the transient row
  with that row's \<^verbatim>\<open>transient_id\<close>. Reading \<^verbatim>\<open>.transient_id\<close> of \<^verbatim>\<open>None\<close> raises.
\<close>

definition get_transient :: "world \<Rightarrow> notice \<Rightarrow> error + transient_row option" where
  "get_transient w n =
     (case Notice_get w (\<lambda>r. Some (n_trigger_id r)) (Some (notice_id n)) of
        Inl err \<Rightarrow> Inl err
      | Inr rows \<Rightarrow>
          (case fetchone rows of
             None \<Rightarrow> Inl AttributeError
           | Some row \<Rightarrow>
               (case Transient_get w (\<lambda>r. Some (t_id r)) (n_transient_id row) of
                  Inl err \<Rightarrow> Inl err
                | Inr transients \<Rightarrow> Inr (fetchone transients))))"

fun active_responses ::
  "env \<Rightarrow> response_row list \<Rightarrow> response_row list \<Rightarrow> world \<Rightarrow> (error + response_row list) \<times> world" where
  "active_responses e [] acc w = (Inr acc, w)"
| "active_responses e (resp # rest) acc w =
     (case Observation_get e (r_obs_id resp) w of
        (Inl err, w1) \<Rightarrow> (Inl err, w1)
      | (Inr obs, w1) \<Rightarrow>
          active_responses e rest (if obs_state obs = ''active'' then acc @ [resp] else acc) w1)"

definition get_responses :: "env \<Rightarrow> notice \<Rightarrow> bool \<Rightarrow> world \<Rightarrow> (error + response_row list) \<times> world" where
  "get_responses e n active w =
     (case get_transient w n of
        Inl err \<Rightarrow> (Inl err, w)
      | Inr None \<Rightarrow> (Inl AttributeError, w)
      | Inr (Some transient) \<Rightarrow>
          (case Response_get w r_transient_id (Some (t_id transient)) of
             Inl err \<Rightarrow> (Inl err, w)
           | Inr responses \<Rightarrow>
               if \<not> active then (Inr responses, w)
               else active_responses e responses [] w))"

definition is_new_notice :: "world \<Rightarrow> notice \<Rightarrow> error + bool" where
  "is_new_notice w n =
     (case Notice_get w (\<lambda>r. Some (n_trigger_id r)) (Some (notice_id n)) of
        Inl err \<Rightarrow> Inl err
      | Inr rows \<Rightarrow> Inr (rows = []))"

text \<open>
  \<^verbatim>\<open>event_time - timedelta(minutes=30)\<close> and \<^verbatim>\<open>event_time + timedelta(minutes=30)\<close>. A
  \<^verbatim>\<open>datetime\<close> lies between \<^verbatim>\<open>datetime.min\<close> (year 1) and \<^verbatim>\<open>datetime.max\<close> (year 9999),
  here in microseconds from 1970 for a time in UTC; a result outside raises.
\<close>

definition datetime_min :: time where
  "datetime_min = - 62135596800000000"

definition datetime_max :: time where
  "datetime_max = 253402300799999999"

definition timedelta_add :: "time \<Rightarrow> int \<Rightarrow> error + time" where
  "timedelta_add t d =
     (if datetime_min \<le> t + d \<and> t + d \<le> datetime_max then Inr (t + d) else Inl OverflowError)"

definition thirty_minutes :: int where
  "thirty_minutes = 30 * 60 * 1000000"

text \<open>The \<^verbatim>\<open>match\<close> of \<^verbatim>\<open>known_transient\<close>: the first row of the search, if any.\<close>

definition known_transient_match :: "world \<Rightarrow> notice \<Rightarrow> error + transient_row option" where
  "known_transient_match w n =
     (case timedelta_add (event_time n) (- thirty_minutes) of
        Inl err \<Rightarrow> Inl err
      | Inr start_time \<Rightarrow>
          (case timedelta_add (event_time n) thirty_minutes of
             Inl err \<Rightarrow> Inl err
           | Inr end_time \<Rightarrow>
               Inr (fetchone (Transient_search w (ra (coords n)) (dec (coords n)) 0.5
                                start_time end_time))))"

definition known_transient :: "world \<Rightarrow> notice \<Rightarrow> error + int option" where
  "known_transient w n =
     (case known_transient_match w n of
        Inl err \<Rightarrow> Inl err
      | Inr None \<Rightarrow> Inr None
      | Inr (Some match) \<Rightarrow> Inr (Some (t_id match)))"

text \<open>
  \<^verbatim>\<open>coordinates_message\<close> evaluates \<^verbatim>\<open>round(coords_error_deg * 60, 3)\<close>, which raises
  \<^verbatim>\<open>TypeError\<close> unless the error is a number. The rendered text stands for the notice
  it is rendered from.
\<close>

definition coordinates_message :: "notice \<Rightarrow> error + notice" where
  "coordinates_message n =
     (case coords_error_deg n of
        JInt _ \<Rightarrow> Inr n
      | JFloat _ \<Rightarrow> Inr n
      | JBool _ \<Rightarrow> Inr n
      | _ \<Rightarrow> Inl TypeError)"

definition new_event_message :: "notice \<Rightarrow> error + notice" where
  "new_event_message n = coordinates_message n"

definition updated_event_message :: "notice \<Rightarrow> error + notice" where
  "updated_event_message n = coordinates_message n"

subsection \<open>\<^verbatim>\<open>EinsteinResponder\<close> (\<^verbatim>\<open>atom/responders/einstein/einstein.py\<close>)\<close>

definition is_interesting :: "notice \<Rightarrow> bool" where
  "is_interesting n = (\<bar>galactic_b (coords n)\<bar> > 4.0)"

definition schedule_early_follow_up :: "env \<Rightarrow> notice \<Rightarrow> world \<Rightarrow> (error + observation) \<times> world" where
  "schedule_early_follow_up e n w = Observation_add e n w"

text \<open>
  \<^verbatim>\<open>for n in self.notifiers: n.send(msg)\<close>. The position of the notifier in the list
  names it in the trace. A \<^verbatim>\<open>send\<close> that raises ends the loop.
\<close>

fun send_all :: "(message \<Rightarrow> send_outcome) list \<Rightarrow> nat \<Rightarrow> message \<Rightarrow> world \<Rightarrow> (error + unit) \<times> world" where
  "send_all [] i msg w = (Inr (), w)"
| "send_all (f # fs) i msg w =
     (case f msg of
        SendRaises \<Rightarrow> (Inl RequestException, record_call (NotifierSend i msg) w)
      | HttpResponse _ \<Rightarrow> send_all fs (Suc i) msg (record_call (NotifierSend i msg) w))"

definition notify_new_event :: "env \<Rightarrow> notice \<Rightarrow> obs_ref \<Rightarrow> world \<Rightarrow> (error + unit) \<times> world" where
  "notify_new_event e n obs w =
     (case new_event_message n of
        Inl err \<Rightarrow> (Inl err, w)
      | Inr msg \<Rightarrow> send_all (notifiers e) 0 (NewEventMessage msg obs) w)"

text \<open>\<^verbatim>\<open>', '.join([r.obs_id for r in responses])\<close> raises unless every item is a \<^verbatim>\<open>str\<close>.\<close>

fun join :: "obs_ref list \<Rightarrow> error + string list" where
  "join [] = Inr []"
| "join (ObsInt _ # rest) = Inl TypeError"
| "join (ObsStr s # rest) = (case join rest of Inl err \<Rightarrow> Inl err | Inr ss \<Rightarrow> Inr (s # ss))"

definition notify_update_event :: "env \<Rightarrow> notice \<Rightarrow> response_row list \<Rightarrow> world \<Rightarrow> (error + unit) \<times> world" where
  "notify_update_event e n responses w =
     (case updated_event_message n of
        Inl err \<Rightarrow> (Inl err, w)
      | Inr msg \<Rightarrow>
          (case join (map r_obs_id responses) of
             Inl err \<Rightarrow> (Inl err, w)
           | Inr ids \<Rightarrow> send_all (notifiers e) 0 (UpdatedEventMessage msg ids) w))"

text \<open>
  The end of \<^verbatim>\<open>respond_to_new_notice\<close>: a transient row is added when no id is bound,
  then the notice row is added under the id.
\<close>

definition persist_new_notice :: "notice \<Rightarrow> int option \<Rightarrow> world \<Rightarrow> (error + unit) \<times> world" where
  "persist_new_notice n transient_id w =
     (case (case transient_id of
              None \<Rightarrow> Transient_add n w
            | Some t \<Rightarrow> (Inr t, w)) of
        (Inl err, w1) \<Rightarrow> (Inl err, w1)
      | (Inr tid, w1) \<Rightarrow>
          (case Notice_add n (Some tid) w1 of
             (Inl err, w2) \<Rightarrow> (Inl err, w2)
           | (Inr _, w2) \<Rightarrow> (Inr (), w2)))"

definition respond_to_new_notice :: "env \<Rightarrow> notice \<Rightarrow> world \<Rightarrow> (error + unit) \<times> world" where
  "respond_to_new_notice e n w =
     (if astrophysical n \<and> is_interesting n then
        (case known_transient w n of
           Inl err \<Rightarrow> (Inl err, w)
         | Inr transient_id \<Rightarrow>
             if transient_id = None then
               (case schedule_early_follow_up e n w of
                  (Inl err, w1) \<Rightarrow> (Inl err, w1)
                | (Inr early_obs, w1) \<Rightarrow>
                    (case Response_add (obs_id early_obs) transient_id w1 of
                       (Inl err, w2) \<Rightarrow> (Inl err, w2)
                     | (Inr _, w2) \<Rightarrow>
                         (case notify_new_event e n (obs_id early_obs) w2 of
                            (Inl err, w3) \<Rightarrow> (Inl err, w3)
                          | (Inr _, w3) \<Rightarrow> persist_new_notice n transient_id w3)))
             else persist_new_notice n transient_id w)
      else persist_new_notice n None w)"

text \<open>
  The loop of the update branch. \<^verbatim>\<open>Transient.update\<close> writes the row id into the SQL
  text, so an id that is \<^verbatim>\<open>None\<close> is rejected by SQLite.
\<close>

fun update_responses :: "env \<Rightarrow> notice \<Rightarrow> response_row list \<Rightarrow> world \<Rightarrow> (error + unit) \<times> world" where
  "update_responses e n [] w = (Inr (), w)"
| "update_responses e n (resp # rest) w =
     (case Observation_update e (r_obs_id resp) n w of
        (Inl err, w1) \<Rightarrow> (Inl err, w1)
      | (Inr _, w1) \<Rightarrow>
          (case r_transient_id resp of
             None \<Rightarrow> (Inl OperationalError, w1)
           | Some t \<Rightarrow>
               (case Transient_update t n w1 of
                  (Inl err, w2) \<Rightarrow> (Inl err, w2)
                | (Inr _, w2) \<Rightarrow> update_responses e n rest w2)))"

text \<open>The last statement of \<^verbatim>\<open>respond_to_update_notice\<close>.\<close>

definition persist_update_notice :: "notice \<Rightarrow> int \<Rightarrow> world \<Rightarrow> (error + unit) \<times> world" where
  "persist_update_notice n transient_id w =
     (case Notice_add n (Some transient_id) w of
        (Inl err, w1) \<Rightarrow> (Inl err, w1)
      | (Inr _, w1) \<Rightarrow> (Inr (), w1))"

definition respond_to_update_notice :: "env \<Rightarrow> notice \<Rightarrow> world \<Rightarrow> (error + unit) \<times> world" where
  "respond_to_update_notice e n w =
     (case get_transient w n of
        Inl err \<Rightarrow> (Inl err, w)
      | Inr transient \<Rightarrow>
          (case get_responses e n True w of
             (Inl err, w1) \<Rightarrow> (Inl err, w1)
           | (Inr responses, w1) \<Rightarrow>
               (case transient of
                  None \<Rightarrow> (Inl AttributeError, w1)
                | Some t \<Rightarrow>
                    if t_astrophysical t \<noteq> 0 \<and> \<not> astrophysical n then
                      persist_update_notice n (t_id t) (Transient_set_false_alarm (t_id t) w1)
                    else if is_interesting n \<and> responses \<noteq> [] then
                      (case update_responses e n responses w1 of
                         (Inl err, w2) \<Rightarrow> (Inl err, w2)
                       | (Inr _, w2) \<Rightarrow>
                           (case notify_update_event e n responses w2 of
                              (Inl err, w3) \<Rightarrow> (Inl err, w3)
                            | (Inr _, w3) \<Rightarrow> persist_update_notice n (t_id t) w3))
                    else persist_update_notice n (t_id t) w1)))"

definition respond :: "env \<Rightarrow> notice \<Rightarrow> world \<Rightarrow> (error + unit) \<times> world" where
  "respond e n w =
     (case is_new_notice w n of
        Inl err \<Rightarrow> (Inl err, w)
      | Inr new \<Rightarrow>
          if new then respond_to_new_notice e n w
          else respond_to_update_notice e n w)"


section \<open>Einstein JSON notice (\<^verbatim>\<open>einstein_json.py\<close>)\<close>

text \<open>
  Functions of Python and of the libraries the parser calls: \<^verbatim>\<open>int\<close> on a \<^verbatim>\<open>str\<close>,
  \<^verbatim>\<open>dateutil.parser.isoparse\<close> and the \<^verbatim>\<open>SkyCoord\<close> constructor of astropy, each
  returning its value or the exception it raises.
\<close>

record library =
  int_of_str :: "string \<Rightarrow> error + int"
  isoparse :: "json \<Rightarrow> error + time"
  SkyCoord :: "json \<Rightarrow> json \<Rightarrow> error + skycoord"

text \<open>\<^verbatim>\<open>d.get(key)\<close>: \<^verbatim>\<open>None\<close> for a missing key; only a \<^verbatim>\<open>dict\<close> has \<^verbatim>\<open>get\<close>.\<close>

definition dict_get :: "json \<Rightarrow> string \<Rightarrow> error + json" where
  "dict_get d key =
     (case d of
        JObj items \<Rightarrow> Inr (case map_of items key of None \<Rightarrow> JNull | Some v \<Rightarrow> v)
      | _ \<Rightarrow> Inl AttributeError)"

definition get_dict_value :: "json \<Rightarrow> string \<Rightarrow> bool \<Rightarrow> bool \<Rightarrow> error + json" where
  "get_dict_value d key quiet required =
     (case dict_get d key of
        Inl err \<Rightarrow> Inl err
      | Inr val \<Rightarrow> if val = JNull \<and> required then Inl ValueError else Inr val)"

definition get_value :: "json \<Rightarrow> string \<Rightarrow> bool \<Rightarrow> bool \<Rightarrow> error + json" where
  "get_value d key quiet required = get_dict_value d key quiet required"

text \<open>Python's \<^verbatim>\<open>int(x)\<close>; a float is truncated towards zero.\<close>

definition py_int :: "library \<Rightarrow> json \<Rightarrow> error + int" where
  "py_int lib x =
     (case x of
        JInt i \<Rightarrow> Inr i
      | JBool b \<Rightarrow> Inr (if b then 1 else 0)
      | JFloat r \<Rightarrow> Inr (if 0 \<le> r then \<lfloor>r\<rfloor> else \<lceil>r\<rceil>)
      | JStr s \<Rightarrow> int_of_str lib s
      | _ \<Rightarrow> Inl TypeError)"

definition parse_id :: "library \<Rightarrow> json \<Rightarrow> error + int" where
  "parse_id lib record =
     (case get_value record ''id'' False True of
        Inl err \<Rightarrow> Inl err
      | Inr trigger_id \<Rightarrow>
          (case trigger_id of
             JArr [] \<Rightarrow> Inl IndexError
           | JArr (first # _) \<Rightarrow> py_int lib first
           | _ \<Rightarrow> py_int lib trigger_id))"

definition parse_instrument :: "json \<Rightarrow> error + json" where
  "parse_instrument record = get_value record ''instrument'' False True"

definition parse_event_time :: "library \<Rightarrow> json \<Rightarrow> error + time" where
  "parse_event_time lib record =
     (case get_value record ''trigger_time'' False True of
        Inl err \<Rightarrow> Inl err
      | Inr t \<Rightarrow> isoparse lib t)"

definition parse_image_snr :: "json \<Rightarrow> error + json" where
  "parse_image_snr record = get_value record ''image_snr'' False False"

definition parse_coordinates :: "library \<Rightarrow> json \<Rightarrow> error + skycoord" where
  "parse_coordinates lib record =
     (case dict_get record ''ra'' of
        Inl err \<Rightarrow> Inl err
      | Inr r \<Rightarrow>
          (case dict_get record ''dec'' of
             Inl err \<Rightarrow> Inl err
           | Inr d \<Rightarrow> SkyCoord lib r d))"

definition parse_coordinates_error :: "json \<Rightarrow> error + json" where
  "parse_coordinates_error record = dict_get record ''ra_dec_error''"

text \<open>
  The constructor with \<^verbatim>\<open>parse=True\<close>, as \<^verbatim>\<open>EinsteinResponder\<close> calls it, on the
  deserialized payload. \<^verbatim>\<open>__init__\<close> sets \<^verbatim>\<open>astrophysical = True\<close>; \<^verbatim>\<open>parse\<close> assigns
  \<^verbatim>\<open>id\<close>, \<^verbatim>\<open>instrument\<close>, \<^verbatim>\<open>event_time\<close>, \<^verbatim>\<open>image_snr\<close>, \<^verbatim>\<open>coords\<close> and
  \<^verbatim>\<open>coords_error_deg\<close> in this order, or raises.
\<close>

definition EinsteinJsonNotice :: "library \<Rightarrow> json \<Rightarrow> error + notice" where
  "EinsteinJsonNotice lib record =
     (case parse_id lib record of
        Inl err \<Rightarrow> Inl err
      | Inr i \<Rightarrow>
     (case parse_instrument record of
        Inl err \<Rightarrow> Inl err
      | Inr ins \<Rightarrow>
     (case parse_event_time lib record of
        Inl err \<Rightarrow> Inl err
      | Inr t \<Rightarrow>
     (case parse_image_snr record of
        Inl err \<Rightarrow> Inl err
      | Inr snr \<Rightarrow>
     (case parse_coordinates lib record of
        Inl err \<Rightarrow> Inl err
      | Inr c \<Rightarrow>
     (case parse_coordinates_error record of
        Inl err \<Rightarrow> Inl err
      | Inr ce \<Rightarrow>
          Inr \<lparr>notice_id = i,
               observatory = ''Einstein Probe'',
               instrument = ins,
               image_snr = snr,
               event_time = t,
               coords = c,
               coords_error_deg = ce,
               astrophysical = True\<rparr>))))))"

text \<open>
  \<^verbatim>\<open>EinsteinResponder(payload).respond()\<close>, as \<^verbatim>\<open>Listener.listen\<close> runs it on a
  message. The settings file is read by the constructor; what it configures is the
  environment \<open>e\<close>.
\<close>

definition EinsteinResponder_respond ::
  "library \<Rightarrow> env \<Rightarrow> json \<Rightarrow> world \<Rightarrow> (error + unit) \<times> world" where
  "EinsteinResponder_respond lib e payload w =
     (case EinsteinJsonNotice lib payload of
        Inl err \<Rightarrow> (Inl err, w)
      | Inr n \<Rightarrow> respond e n w)"

section \<open>Observations on a run\<close>

text \<open>
  The calls of the trace that update an observation of the scheduler, and those that invoke
  a notifier.
\<close>

fun is_scheduler_update :: "call \<Rightarrow> bool" where
  "is_scheduler_update (SchedulerUpdate _ _ _) = True"
| "is_scheduler_update _ = False"

fun is_notifier_send :: "call \<Rightarrow> bool" where
  "is_notifier_send (NotifierSend _ _) = True"
| "is_notifier_send _ = False"

text \<open>
  No response row names a transient: the state of the \<^verbatim>\<open>response\<close> table that
  \<^verbatim>\<open>respond_to_new_notice\<close>, the only caller of \<^verbatim>\<open>Response.add\<close>, maintains.
\<close>

definition unlinked :: "world \<Rightarrow> bool" where
  "unlinked w = list_all (\<lambda>r. r_transient_id r = None) (response_table w)"

text \<open>The database as it is created, before any notice has been processed.\<close>

definition empty_world :: world where
  "empty_world = \<lparr>notice_table = [], transient_table = [], response_table = [], calls = []\<rparr>"

text \<open>
  A right ascension of \<open>[0, 360]\<close> lies in the box \<open>[ra_min, ra_max]\<close> re-based by a
  full turn: the value itself, or the value one turn up or down, is in the interval.
\<close>

definition ra_in_wrapped_box :: "real \<Rightarrow> real \<Rightarrow> real \<Rightarrow> bool" where
  "ra_in_wrapped_box ra_min ra_max r =
     (between r 0 360 \<and>
      (between r ra_min ra_max \<or> between (r + 360) ra_min ra_max
        \<or> between (r - 360) ra_min ra_max))"

section \<open>Scenarios\<close>

text \<open>Two transients at the same time and declination, at 359.5 and at 180 degrees.\<close>

definition meridian_store :: world where
  "meridian_store =
     \<lparr>notice_table = [],
      transient_table =
        [\<lparr>t_id = 1, t_event_time = 0, t_ra_deg = 359.5, t_dec_deg = 0,
          t_pos_error_deg = JFloat 0.02, t_astrophysical = 1\<rparr>,
         \<lparr>t_id = 2, t_event_time = 0, t_ra_deg = 180, t_dec_deg = 0,
          t_pos_error_deg = JFloat 0.02, t_astrophysical = 1\<rparr>],
      response_table = [],
      calls = []\<rparr>"

text \<open>
  The notice of the end-to-end scenario (trigger 100 at 120/40, galactic latitude 30
  degrees), the same notice with refined coordinates, the same notice as a retraction, the
  same notice with the instrument given as a JSON array, and a notice in the galactic plane
  with the instrument given as a JSON array.
\<close>

definition einstein_notice :: notice where
  "einstein_notice =
     \<lparr>notice_id = 100,
      observatory = ''Einstein Probe'',
      instrument = JStr ''WXT'',
      image_snr = JInt 1,
      event_time = 0,
      coords = \<lparr>ra = 120, dec = 40, galactic_b = 30\<rparr>,
      coords_error_deg = JFloat 0.02,
      astrophysical = True\<rparr>"

definition refined_notice :: notice where
  "refined_notice = einstein_notice\<lparr>coords := \<lparr>ra = 120.01, dec = 40.01, galactic_b = 30\<rparr>\<rparr>"

definition retraction_notice :: notice where
  "retraction_notice = einstein_notice\<lparr>astrophysical := False\<rparr>"

definition array_instrument_notice :: notice where
  "array_instrument_notice = einstein_notice\<lparr>instrument := JArr [JStr ''WXT'']\<rparr>"

definition plane_notice :: notice where
  "plane_notice =
     einstein_notice\<lparr>instrument := JArr [JStr ''WXT''],
                     coords := \<lparr>ra = 266.4, dec = - 29, galactic_b = 0\<rparr>\<rparr>"

text \<open>
  Collaborators: a scheduler that answers every call (new observations get id 7) with two
  notifiers that return HTTP 200; the same with a first notifier whose \<^verbatim>\<open>send\<close> raises;
  the same with a first notifier that returns HTTP 500.
\<close>

definition working_env :: env where
  "working_env =
     \<lparr>scheduler_add = (\<lambda>n. Some \<lparr>obs_id = ObsInt 7, obs_state = ''active''\<rparr>),
      scheduler_get = (\<lambda>obs. Some \<lparr>obs_id = obs, obs_state = ''active''\<rparr>),
      scheduler_update = (\<lambda>obs n. Some \<lparr>obs_id = obs, obs_state = ''active''\<rparr>),
      notifiers = [\<lambda>msg. HttpResponse 200, \<lambda>msg. HttpResponse 200]\<rparr>"

definition raising_env :: env where
  "raising_env = working_env\<lparr>notifiers := [\<lambda>msg. SendRaises, \<lambda>msg. HttpResponse 200]\<rparr>"

definition rejecting_env :: env where
  "rejecting_env = working_env\<lparr>notifiers := [\<lambda>msg. HttpResponse 500, \<lambda>msg. HttpResponse 200]\<rparr>"

text \<open>
  The de-duplication scenario: a transient at 60.0/45.0 at time \<open>T\<close>, and a new notice of
  another trigger at 60.2/45.1 ten minutes later. In \<open>false_alarm_store\<close> the transient is
  a false alarm.
\<close>

definition dedup_transient :: transient_row where
  "dedup_transient =
     \<lparr>t_id = 1, t_event_time = 0, t_ra_deg = 60.0, t_dec_deg = 45.0,
      t_pos_error_deg = JFloat 0.02, t_astrophysical = 1\<rparr>"

definition dedup_store :: world where
  "dedup_store =
     \<lparr>notice_table = [],
      transient_table = [dedup_transient],
      response_table = [],
      calls = []\<rparr>"

definition false_alarm_store :: world where
  "false_alarm_store =
     \<lparr>notice_table = [],
      transient_table =
        [\<lparr>t_id = 1, t_event_time = 0, t_ra_deg = 60.0, t_dec_deg = 45.0,
          t_pos_error_deg = JFloat 0.02, t_astrophysical = 0\<rparr>],
      response_table = [],
      calls = []\<rparr>"

definition nearby_notice :: notice where
  "nearby_notice =
     \<lparr>notice_id = 200,
      observatory = ''Einstein Probe'',
      instrument = JStr ''WXT'',
      image_snr = JInt 1,
      event_time = 600000000,
      coords = \<lparr>ra = 60.2, dec = 45.1, galactic_b = 30\<rparr>,
      coords_error_deg = JFloat 0.02,
      astrophysical = True\<rparr>"

text \<open>A notice row of trigger 100 whose transient row does not exist.\<close>

definition orphan_store :: world where
  "orphan_store =
     \<lparr>notice_table =
        [\<lparr>n_id = 1, n_trigger_id = 100, n_transient_id = Some 5, n_trigger_time = 0,
          n_observatory = ''Einstein Probe'', n_instrument = JStr ''WXT'',
          n_ra_deg = 120, n_dec_deg = 40, n_pos_error_deg = JFloat 0.02\<rparr>],
      transient_table = [],
      response_table = [],
      calls = []\<rparr>"

text \<open>
  A database in which the response row of observation \<^verbatim>\<open>'7'\<close> names transient 1, the
  transient of trigger 100.
\<close>

definition tracked_world :: world where
  "tracked_world =
     \<lparr>notice_table =
        [\<lparr>n_id = 1, n_trigger_id = 100, n_transient_id = Some 1, n_trigger_time = 0,
          n_observatory = ''Einstein Probe'', n_instrument = JStr ''WXT'',
          n_ra_deg = 120, n_dec_deg = 40, n_pos_error_deg = JFloat 0.02\<rparr>],
      transient_table =
        [\<lparr>t_id = 1, t_event_time = 0, t_ra_deg = 120, t_dec_deg = 40,
          t_pos_error_deg = JFloat 0.02, t_astrophysical = 1\<rparr>],
      response_table = [\<lparr>r_id = 1, r_obs_id = ObsStr ''7'', r_transient_id = Some 1\<rparr>],
      calls = []\<rparr>"

text \<open>
  The database and the trace after the first notice of the end-to-end scenario, after that
  notice when the first notifier raises, after the notice in the galactic plane, and after
  the first notice followed by its retraction.
\<close>

definition after_first_notice :: world where
  "after_first_notice =
     \<lparr>notice_table =
        [\<lparr>n_id = 1, n_trigger_id = 100, n_transient_id = Some 1, n_trigger_time = 0,
          n_observatory = ''Einstein Probe'', n_instrument = JStr ''WXT'',
          n_ra_deg = 120, n_dec_deg = 40, n_pos_error_deg = JFloat 0.02\<rparr>],
      transient_table =
        [\<lparr>t_id = 1, t_event_time = 0, t_ra_deg = 120, t_dec_deg = 40,
          t_pos_error_deg = JFloat 0.02, t_astrophysical = 1\<rparr>],
      response_table = [\<lparr>r_id = 1, r_obs_id = ObsInt 7, r_transient_id = None\<rparr>],
      calls = [SchedulerAdd einstein_notice,
               NotifierSend 0 (NewEventMessage einstein_notice (ObsInt 7)),
               NotifierSend 1 (NewEventMessage einstein_notice (ObsInt 7))]\<rparr>"

definition after_raising_send :: world where
  "after_raising_send =
     \<lparr>notice_table = [],
      transient_table = [],
      response_table = [\<lparr>r_id = 1, r_obs_id = ObsInt 7, r_transient_id = None\<rparr>],
      calls = [SchedulerAdd einstein_notice,
               NotifierSend 0 (NewEventMessage einstein_notice (ObsInt 7))]\<rparr>"

definition after_refused_notice :: world where
  "after_refused_notice =
     \<lparr>notice_table = [],
      transient_table =
        [\<lparr>t_id = 1, t_event_time = 0, t_ra_deg = 266.4, t_dec_deg = - 29,
          t_pos_error_deg = JFloat 0.02, t_astrophysical = 1\<rparr>],
      response_table = [],
      calls = []\<rparr>"

definition after_retraction :: world where
  "after_retraction =
     after_first_notice\<lparr>
       notice_table :=
        [\<lparr>n_id = 1, n_trigger_id = 100, n_transient_id = Some 1, n_trigger_time = 0,
          n_observatory = ''Einstein Probe'', n_instrument = JStr ''WXT'',
          n_ra_deg = 120, n_dec_deg = 40, n_pos_error_deg = JFloat 0.02\<rparr>,
         \<lparr>n_id = 2, n_trigger_id = 100, n_transient_id = Some 1, n_trigger_time = 0,
          n_observatory = ''Einstein Probe'', n_instrument = JStr ''WXT'',
          n_ra_deg = 120, n_dec_deg = 40, n_pos_error_deg = JFloat 0.02\<rparr>],
       transient_table :=
        [\<lparr>t_id = 1, t_event_time = 0, t_ra_deg = 120, t_dec_deg = 40,
          t_pos_error_deg = JFloat 0.02, t_astrophysical = 0\<rparr>]\<rparr>"

text \<open>
  A payload of the Einstein Probe stream, with the library functions defined on the values
  it holds.
\<close>

definition stub_library :: library where
  "stub_library =
     \<lparr>int_of_str = (\<lambda>s. if s = ''01708973486'' then Inr 1708973486 else Inl ValueError),
      isoparse = (\<lambda>t. case t of JStr _ \<Rightarrow> Inr 0 | _ \<Rightarrow> Inl TypeError),
      SkyCoord = (\<lambda>r d. case (r, d) of
                     (JInt a, JInt b) \<Rightarrow> Inr \<lparr>ra = of_int a, dec = of_int b, galactic_b = 30\<rparr>
                   | _ \<Rightarrow> Inl TypeError)\<rparr>"

definition einstein_payload :: json where
  "einstein_payload =
     JObj [(''id'', JArr [JStr ''01708973486'']),
           (''instrument'', JStr ''WXT''),
           (''trigger_time'', JStr ''2024-03-01T21:46:05.13Z''),
           (''image_snr'', JInt 1),
           (''ra'', JInt 120),
           (''dec'', JInt 40),
           (''ra_dec_error'', JFloat 0.02)]"

section \<open>Properties of the embedding\<close>

lemma record_call_tables [simp]:
  "notice_table (record_call c w) = notice_table w"
  "transient_table (record_call c w) = transient_table w"
  "response_table (record_call c w) = response_table w"
  "calls (record_call c w) = calls w @ [c]"
  by (simp_all add: record_call_def)

lemma bind_parameters_None:
  "(bind_parameters ps = None) = (\<forall>p\<in>set ps. p = None)"
  by (induction ps rule: bind_parameters.induct) auto

lemma Notice_add_frame:
  assumes "Notice_add n t w = (r, w')"
  shows "transient_table w' = transient_table w" "response_table w' = response_table w"
    "calls w' = calls w"
  using assms by (auto simp: Notice_add_def Let_def split: option.splits)

lemma Notice_add_Inl:
  assumes "Notice_add n t w = (Inl err, w')"
  shows "w' = w" "err = OverflowError \<or> err = ProgrammingError"
  using assms
  by (auto simp: Notice_add_def Let_def bind_int_def bind_json_def
      split: option.splits json.splits if_splits)

lemma Notice_add_Inr:
  assumes "Notice_add n t w = (Inr i, w')"
  shows "notice_table w' = notice_table w @
          [\<lparr>n_id = lastrowid (map n_id (notice_table w)),
            n_trigger_id = notice_id n,
            n_transient_id = t,
            n_trigger_time = event_time n,
            n_observatory = observatory n,
            n_instrument = instrument n,
            n_ra_deg = ra (coords n),
            n_dec_deg = dec (coords n),
            n_pos_error_deg = coords_error_deg n\<rparr>]"
  using assms by (auto simp: Notice_add_def Let_def split: option.splits)

lemma Notice_add_binds:
  assumes "bind_int (notice_id n) = None" and "bind_json (instrument n) = None"
    and "bind_json (coords_error_deg n) = None"
  shows "\<exists>i w'. Notice_add n t w = (Inr i, w')"
  using assms by (simp add: Notice_add_def Let_def)

lemma Transient_add_frame:
  assumes "Transient_add n w = (r, w')"
  shows "notice_table w' = notice_table w" "response_table w' = response_table w"
    "calls w' = calls w"
  using assms by (auto simp: Transient_add_def Let_def split: option.splits)

lemma Transient_add_Inl:
  assumes "Transient_add n w = (Inl err, w')"
  shows "w' = w" "err = OverflowError \<or> err = ProgrammingError"
  using assms
  by (auto simp: Transient_add_def Let_def bind_int_def bind_json_def
      split: option.splits json.splits if_splits)

lemma Transient_add_Inr:
  assumes "Transient_add n w = (Inr i, w')"
  shows "i = lastrowid (map t_id (transient_table w))"
    "transient_table w' = transient_table w @
       [\<lparr>t_id = lastrowid (map t_id (transient_table w)),
         t_event_time = event_time n,
         t_ra_deg = ra (coords n),
         t_dec_deg = dec (coords n),
         t_pos_error_deg = coords_error_deg n,
         t_astrophysical = (if astrophysical n then 1 else 0)\<rparr>]"
  using assms by (auto simp: Transient_add_def Let_def split: option.splits)

lemma Transient_add_binds:
  assumes "bind_json (coords_error_deg n) = None"
  shows "\<exists>i w'. Transient_add n w = (Inr i, w')"
  using assms by (simp add: Transient_add_def Let_def)

lemma Response_add_frame:
  assumes "Response_add obs t w = (r, w')"
  shows "notice_table w' = notice_table w" "transient_table w' = transient_table w"
    "calls w' = calls w"
  using assms by (auto simp: Response_add_def Let_def split: option.splits)

lemma Response_add_Inl:
  assumes "Response_add obs t w = (Inl err, w')"
  shows "w' = w" "err = OverflowError"
  using assms
  by (auto simp: Response_add_def Let_def bind_obs_def bind_int_def
      split: option.splits obs_ref.splits if_splits)

lemma Response_add_Inr:
  assumes "Response_add obs t w = (Inr i, w')"
  shows "response_table w' = response_table w @
          [\<lparr>r_id = lastrowid (map r_id (response_table w)), r_obs_id = obs, r_transient_id = t\<rparr>]"
  using assms by (auto simp: Response_add_def Let_def split: option.splits)

lemma Transient_update_frame:
  assumes "Transient_update t n w = (r, w')"
  shows "notice_table w' = notice_table w" "response_table w' = response_table w"
    "calls w' = calls w"
    "map t_id (transient_table w') = map t_id (transient_table w)"
    "map t_astrophysical (transient_table w') = map t_astrophysical (transient_table w)"
  using assms
  by (auto simp: Transient_update_def update_def comp_def split: option.splits)

lemma Transient_update_Inl:
  assumes "Transient_update t n w = (Inl err, w')"
  shows "w' = w" "err = OverflowError \<or> err = ProgrammingError"
  using assms
  by (auto simp: Transient_update_def bind_int_def bind_json_def
      split: option.splits json.splits if_splits)

lemma Transient_update_Inr:
  assumes "Transient_update t n w = (Inr u, w')"
  shows "bind_json (coords_error_deg n) = None"
  using assms by (auto simp: Transient_update_def bind_parameters_None split: option.splits)

lemma Transient_set_false_alarm_tables [simp]:
  "notice_table (Transient_set_false_alarm t w) = notice_table w"
  "response_table (Transient_set_false_alarm t w) = response_table w"
  "calls (Transient_set_false_alarm t w) = calls w"
  "map t_id (transient_table (Transient_set_false_alarm t w)) = map t_id (transient_table w)"
  "map t_ra_deg (transient_table (Transient_set_false_alarm t w)) = map t_ra_deg (transient_table w)"
  "map t_dec_deg (transient_table (Transient_set_false_alarm t w)) = map t_dec_deg (transient_table w)"
  by (simp_all add: Transient_set_false_alarm_def update_def comp_def)

lemma Observation_get_frame:
  assumes "Observation_get e obs w = (r, w')"
  shows "notice_table w' = notice_table w" "transient_table w' = transient_table w"
    "response_table w' = response_table w" "calls w' = calls w @ [SchedulerGet obs]"
  using assms by (auto simp: Observation_get_def split: option.splits)

lemma Observation_update_frame:
  assumes "Observation_update e obs n w = (r, w')"
  shows "notice_table w' = notice_table w" "transient_table w' = transient_table w"
    "response_table w' = response_table w"
    "calls w' = calls w @ [SchedulerUpdate obs (ra (coords n) / 15) (dec (coords n))]"
  using assms by (auto simp: Observation_update_def Let_def split: option.splits)

lemma Observation_add_frame:
  assumes "Observation_add e n w = (r, w')"
  shows "notice_table w' = notice_table w" "transient_table w' = transient_table w"
    "response_table w' = response_table w" "calls w' = calls w @ [SchedulerAdd n]"
  using assms by (auto simp: Observation_add_def split: option.splits)

lemma active_responses_frame:
  assumes "active_responses e rs acc w = (r, w')"
  shows "notice_table w' = notice_table w \<and> transient_table w' = transient_table w
    \<and> response_table w' = response_table w
    \<and> (\<exists>cs. calls w' = calls w @ cs \<and> filter is_scheduler_update cs = []
          \<and> filter is_notifier_send cs = [])"
  using assms
proof (induction rs arbitrary: acc w)
  case Nil
  then show ?case by simp
next
  case (Cons resp rest)
  obtain r1 w1 where og: "Observation_get e (r_obs_id resp) w = (r1, w1)"
    by (cases "Observation_get e (r_obs_id resp) w")
  note f = Observation_get_frame[OF og]
  show ?case
  proof (cases r1)
    case (Inl err)
    with Cons.prems og f show ?thesis by simp
  next
    case (Inr obs)
    with Cons.prems og have "active_responses e rest
        (if obs_state obs = ''active'' then acc @ [resp] else acc) w1 = (r, w')"
      by simp
    from Cons.IH[OF this] f show ?thesis by auto
  qed
qed

lemma send_all_frame:
  assumes "send_all fs i msg w = (r, w')"
  shows "notice_table w' = notice_table w \<and> transient_table w' = transient_table w
    \<and> response_table w' = response_table w
    \<and> (\<exists>j\<le>length fs. calls w' = calls w @ map (\<lambda>k. NotifierSend k msg) [i..<i + j])"
  using assms
proof (induction fs arbitrary: i w)
  case Nil
  then show ?case by simp
next
  case (Cons f fs)
  show ?case
  proof (cases "f msg")
    case SendRaises
    with Cons.prems have "w' = record_call (NotifierSend i msg) w" by simp
    then have "calls w' = calls w @ map (\<lambda>k. NotifierSend k msg) [i..<i + 1]" by simp
    moreover have "(1::nat) \<le> length (f # fs)" by simp
    ultimately show ?thesis using \<open>w' = record_call (NotifierSend i msg) w\<close>
      by (intro conjI exI[of _ 1]) simp_all
  next
    case (HttpResponse status)
    with Cons.prems
    have "send_all fs (Suc i) msg (record_call (NotifierSend i msg) w) = (r, w')" by simp
    from Cons.IH[OF this] obtain j where j: "j \<le> length fs"
      "calls w' = calls w @ [NotifierSend i msg] @ map (\<lambda>k. NotifierSend k msg) [Suc i..<Suc i + j]"
      and t: "notice_table w' = notice_table w" "transient_table w' = transient_table w"
        "response_table w' = response_table w"
      by auto
    have "[i..<i + Suc j] = i # [Suc i..<Suc i + j]"
      using upt_conv_Cons[of i "i + Suc j"] by simp
    with j have "calls w' = calls w @ map (\<lambda>k. NotifierSend k msg) [i..<i + Suc j]" by simp
    moreover have "Suc j \<le> length (f # fs)" using j by simp
    ultimately show ?thesis using t by blast
  qed
qed

lemma send_all_no_raise:
  assumes "\<forall>send\<in>set fs. send msg \<noteq> SendRaises"
  shows "send_all fs i msg w =
           (Inr (), w\<lparr>calls := calls w @ map (\<lambda>k. NotifierSend k msg) [i..<i + length fs]\<rparr>)"
  using assms
proof (induction fs arbitrary: i w)
  case Nil
  then show ?case by simp
next
  case (Cons f fs)
  then obtain status where f: "f msg = HttpResponse status"
    by (cases "f msg") auto
  have rest: "\<forall>send\<in>set fs. send msg \<noteq> SendRaises" using Cons.prems by simp
  have "[i..<i + length (f # fs)] = i # [Suc i..<Suc i + length fs]"
    using upt_conv_Cons[of i "i + Suc (length fs)"] by simp
  with f Cons.IH[OF rest, of "Suc i" "record_call (NotifierSend i msg) w"]
  show ?case by (simp add: record_call_def)
qed

lemma update_responses_frame:
  assumes "update_responses e n rs w = (r, w')"
  shows "notice_table w' = notice_table w \<and> response_table w' = response_table w
    \<and> map t_id (transient_table w') = map t_id (transient_table w)
    \<and> map t_astrophysical (transient_table w') = map t_astrophysical (transient_table w)
    \<and> (\<exists>cs. calls w' = calls w @ cs \<and> filter is_notifier_send cs = [])"
  using assms
proof (induction rs arbitrary: w)
  case Nil
  then show ?case by simp
next
  case (Cons resp rest)
  obtain r1 w1 where ou: "Observation_update e (r_obs_id resp) n w = (r1, w1)"
    by (cases "Observation_update e (r_obs_id resp) n w")
  note f1 = Observation_update_frame[OF ou]
  show ?case
  proof (cases r1)
    case (Inl err)
    with Cons.prems ou f1 show ?thesis by simp
  next
    case (Inr obs)
    show ?thesis
    proof (cases "r_transient_id resp")
      case None
      with Inr Cons.prems ou f1 show ?thesis by simp
    next
      case (Some tid)
      obtain r2 w2 where tu: "Transient_update tid n w1 = (r2, w2)"
        by (cases "Transient_update tid n w1")
      note f2 = Transient_update_frame[OF tu]
      show ?thesis
      proof (cases r2)
        case (Inl err)
        with Inr Some Cons.prems ou tu f1 f2 show ?thesis by simp
      next
        case ok: (Inr u)
        with Inr Some Cons.prems ou tu
        have "update_responses e n rest w2 = (r, w')" by simp
        from Cons.IH[OF this] f1 f2 show ?thesis by auto
      qed
    qed
  qed
qed

lemmas persist_defs = persist_new_notice_def Transient_add_def Notice_add_def Let_def

lemma persist_new_notice_frame:
  assumes "persist_new_notice n t w = (r, w')"
  shows "response_table w' = response_table w" "calls w' = calls w"
    "take (length (transient_table w)) (transient_table w') = transient_table w"
    "length (transient_table w') \<le> Suc (length (transient_table w))"
    "t \<noteq> None \<Longrightarrow> transient_table w' = transient_table w"
  using assms
  by (auto simp: persist_defs split: option.splits sum.splits prod.splits)

lemma persist_new_notice_failed:
  assumes "persist_new_notice n t w = (r, w')" and "r \<noteq> Inr ()"
  shows "notice_table w' = notice_table w"
  using assms
  by (auto simp: persist_defs split: option.splits sum.splits prod.splits)

lemma persist_new_notice_done:
  assumes "persist_new_notice n t w = (Inr (), w')"
  shows "notice_table w' = notice_table w @
          [\<lparr>n_id = lastrowid (map n_id (notice_table w)),
            n_trigger_id = notice_id n,
            n_transient_id =
              Some (case t of None \<Rightarrow> lastrowid (map t_id (transient_table w)) | Some i \<Rightarrow> i),
            n_trigger_time = event_time n,
            n_observatory = observatory n,
            n_instrument = instrument n,
            n_ra_deg = ra (coords n),
            n_dec_deg = dec (coords n),
            n_pos_error_deg = coords_error_deg n\<rparr>]"
  using assms
  by (auto simp: persist_defs split: option.splits sum.splits prod.splits)

lemma persist_new_notice_binds:
  assumes "bind_int (notice_id n) = None" and "bind_json (instrument n) = None"
    and "bind_json (coords_error_deg n) = None"
  shows "fst (persist_new_notice n t w) = Inr ()"
  using assms by (auto simp: persist_defs split: option.splits)

lemma persist_update_notice_frame:
  assumes "persist_update_notice n t w = (r, w')"
  shows "response_table w' = response_table w" "calls w' = calls w"
    "transient_table w' = transient_table w"
  using assms
  by (auto simp: persist_update_notice_def Notice_add_def Let_def
      split: option.splits sum.splits prod.splits)

lemma persist_update_notice_failed:
  assumes "persist_update_notice n t w = (r, w')" and "r \<noteq> Inr ()"
  shows "notice_table w' = notice_table w"
  using assms
  by (auto simp: persist_update_notice_def Notice_add_def Let_def
      split: option.splits sum.splits prod.splits)

lemma persist_update_notice_done:
  assumes "persist_update_notice n t w = (Inr (), w')"
  shows "notice_table w' = notice_table w @
          [\<lparr>n_id = lastrowid (map n_id (notice_table w)),
            n_trigger_id = notice_id n,
            n_transient_id = Some t,
            n_trigger_time = event_time n,
            n_observatory = observatory n,
            n_instrument = instrument n,
            n_ra_deg = ra (coords n),
            n_dec_deg = dec (coords n),
            n_pos_error_deg = coords_error_deg n\<rparr>]"
  using assms
  by (auto simp: persist_update_notice_def Notice_add_def Let_def
      split: option.splits sum.splits prod.splits)

lemma persist_update_notice_binds:
  assumes "bind_int (notice_id n) = None" and "bind_json (instrument n) = None"
    and "bind_json (coords_error_deg n) = None"
  shows "fst (persist_update_notice n t w) = Inr ()"
  using assms by (auto simp: persist_update_notice_def Notice_add_def Let_def split: option.splits)

lemma get_responses_frame:
  assumes "get_responses e n active w = (r, w')"
  shows "notice_table w' = notice_table w \<and> transient_table w' = transient_table w
    \<and> response_table w' = response_table w
    \<and> (\<exists>cs. calls w' = calls w @ cs \<and> filter is_scheduler_update cs = []
          \<and> filter is_notifier_send cs = [])"
  using assms active_responses_frame[of e _ "[]" w r w']
  by (auto simp: get_responses_def split: sum.splits option.splits if_splits)

lemma new_notice_stages:
  assumes "respond_to_new_notice e n w = (r, w')"
  obtains
    (direct) t where "persist_new_notice n t w = (r, w')"
  | (failed) err where "r = Inl err"
      "notice_table w' = notice_table w" "transient_table w' = transient_table w"
      "response_table w' = response_table w \<or>
         (\<exists>obs. response_table w' = response_table w @
            [\<lparr>r_id = lastrowid (map r_id (response_table w)), r_obs_id = obs,
              r_transient_id = None\<rparr>])"
      "calls w' = calls w \<or> calls w' = calls w @ [SchedulerAdd n]"
  | (notified) obs body w2 r3 w3 where
      "new_event_message n = Inr body"
      "notice_table w2 = notice_table w" "transient_table w2 = transient_table w"
      "response_table w2 = response_table w @
            [\<lparr>r_id = lastrowid (map r_id (response_table w)), r_obs_id = obs,
              r_transient_id = None\<rparr>]"
      "calls w2 = calls w @ [SchedulerAdd n]"
      "send_all (notifiers e) 0 (NewEventMessage body obs) w2 = (r3, w3)"
      "\<And>err. r3 = Inl err \<Longrightarrow> r = Inl err \<and> w' = w3"
      "\<And>u. r3 = Inr u \<Longrightarrow> persist_new_notice n None w3 = (r, w')"
proof (cases "astrophysical n \<and> is_interesting n")
  case False
  with assms have "persist_new_notice n None w = (r, w')"
    by (auto simp: respond_to_new_notice_def)
  then show ?thesis by (rule direct)
next
  case interesting: True
  show ?thesis
  proof (cases "known_transient w n")
    case (Inl err)
    with interesting assms have "r = Inl err" "w' = w"
      by (auto simp: respond_to_new_notice_def)
    then show ?thesis by (intro failed[of err]) simp_all
  next
    case (Inr transient_id)
    show ?thesis
    proof (cases transient_id)
      case (Some tid)
      with Inr interesting assms have "persist_new_notice n (Some tid) w = (r, w')"
        by (auto simp: respond_to_new_notice_def)
      then show ?thesis by (rule direct)
    next
      case None
      obtain r1 w1 where s1: "schedule_early_follow_up e n w = (r1, w1)"
        by (cases "schedule_early_follow_up e n w")
      then have "Observation_add e n w = (r1, w1)" by (simp add: schedule_early_follow_up_def)
      note f1 = Observation_add_frame[OF this]
      show ?thesis
      proof (cases r1)
        case (Inl err)
        with assms interesting Inr None s1 have "r = Inl err" "w' = w1"
          by (auto simp: respond_to_new_notice_def)
        with f1 show ?thesis by (intro failed[of err]) simp_all
      next
        case scheduled: (Inr early_obs)
        obtain r2 w2 where s2: "Response_add (obs_id early_obs) None w1 = (r2, w2)"
          by (cases "Response_add (obs_id early_obs) None w1")
        note f2 = Response_add_frame[OF s2]
        show ?thesis
        proof (cases r2)
          case (Inl err)
          with assms interesting Inr None s1 scheduled s2 have "r = Inl err" "w' = w2"
            by (auto simp: respond_to_new_notice_def)
          moreover have "w2 = w1" using s2 Inl Response_add_Inl(1) by blast
          ultimately show ?thesis using f1 by (intro failed[of err]) simp_all
        next
          case recorded: (Inr i)
          have rt: "response_table w2 = response_table w @
            [\<lparr>r_id = lastrowid (map r_id (response_table w)), r_obs_id = obs_id early_obs,
              r_transient_id = None\<rparr>]"
            using Response_add_Inr[of "obs_id early_obs" None w1 i w2] s2 recorded f1 by simp
          obtain r3 w3 where s3: "notify_new_event e n (obs_id early_obs) w2 = (r3, w3)"
            by (cases "notify_new_event e n (obs_id early_obs) w2")
          from assms interesting Inr None s1 scheduled s2 recorded s3
          have res: "\<And>err. r3 = Inl err \<Longrightarrow> r = Inl err \<and> w' = w3"
            "\<And>u. r3 = Inr u \<Longrightarrow> persist_new_notice n None w3 = (r, w')"
            by (auto simp: respond_to_new_notice_def)
          show ?thesis
          proof (cases "new_event_message n")
            case (Inl err)
            with s3 have "r3 = Inl err" "w3 = w2" by (simp_all add: notify_new_event_def)
            with res have "r = Inl err" "w' = w2" by simp_all
            with f1 f2 rt show ?thesis by (intro failed[of err]) auto
          next
            case rendered: (Inr body)
            with s3 have "send_all (notifiers e) 0 (NewEventMessage body (obs_id early_obs)) w2
                = (r3, w3)"
              by (simp add: notify_new_event_def)
            with rendered f1 f2 rt res show ?thesis
              by (intro notified[of body w2 "obs_id early_obs" r3 w3]) simp_all
          qed
        qed
      qed
    qed
  qed
qed

lemma update_notice_stages:
  assumes "respond_to_update_notice e n w = (r, w')"
  obtains
    (failed) err cs where "r = Inl err"
      "notice_table w' = notice_table w" "response_table w' = response_table w"
      "map t_id (transient_table w') = map t_id (transient_table w)"
      "map t_astrophysical (transient_table w') = map t_astrophysical (transient_table w)"
      "calls w' = calls w @ cs" "filter is_notifier_send cs = []"
  | (quiet) t w1 cs where "get_transient w n = Inr (Some t)"
      "persist_update_notice n (t_id t) w1 = (r, w')"
      "notice_table w1 = notice_table w" "response_table w1 = response_table w"
      "map t_id (transient_table w1) = map t_id (transient_table w)"
      "astrophysical n \<Longrightarrow>
         map t_astrophysical (transient_table w1) = map t_astrophysical (transient_table w)"
      "calls w1 = calls w @ cs" "filter is_notifier_send cs = []"
  | (notified) t w2 cs msg r3 w3 where "get_transient w n = Inr (Some t)"
      "notice_table w2 = notice_table w" "response_table w2 = response_table w"
      "map t_id (transient_table w2) = map t_id (transient_table w)"
      "map t_astrophysical (transient_table w2) = map t_astrophysical (transient_table w)"
      "calls w2 = calls w @ cs" "filter is_notifier_send cs = []"
      "send_all (notifiers e) 0 msg w2 = (r3, w3)"
      "\<And>err. r3 = Inl err \<Longrightarrow> r = Inl err \<and> w' = w3"
      "\<And>u. r3 = Inr u \<Longrightarrow> persist_update_notice n (t_id t) w3 = (r, w')"
proof (cases "get_transient w n")
  case (Inl err)
  with assms have "r = Inl err" "w' = w" by (simp_all add: respond_to_update_notice_def)
  then show ?thesis by (intro failed[of err "[]"]) simp_all
next
  case (Inr transient)
  obtain r1 w1 where gr: "get_responses e n True w = (r1, w1)"
    by (cases "get_responses e n True w")
  from get_responses_frame[OF gr] obtain cs1 where f1:
    "notice_table w1 = notice_table w" "transient_table w1 = transient_table w"
    "response_table w1 = response_table w" "calls w1 = calls w @ cs1"
    "filter is_notifier_send cs1 = []"
    by auto
  show ?thesis
  proof (cases r1)
    case (Inl err)
    with assms Inr gr have "r = Inl err" "w' = w1" by (simp_all add: respond_to_update_notice_def)
    with f1 show ?thesis by (intro failed[of err cs1]) simp_all
  next
    case responses: (Inr responses)
    show ?thesis
    proof (cases transient)
      case None
      with assms Inr gr responses have "r = Inl AttributeError" "w' = w1"
        by (simp_all add: respond_to_update_notice_def)
      with f1 show ?thesis by (intro failed[of AttributeError cs1]) simp_all
    next
      case (Some t)
      show ?thesis
      proof (cases "t_astrophysical t \<noteq> 0 \<and> \<not> astrophysical n")
        case True
        with assms Inr gr responses Some
        have "persist_update_notice n (t_id t) (Transient_set_false_alarm (t_id t) w1) = (r, w')"
          by (auto simp: respond_to_update_notice_def)
        with Inr Some f1 True show ?thesis
          by (intro quiet[of t "Transient_set_false_alarm (t_id t) w1" cs1]) simp_all
      next
        case nofalse: False
        show ?thesis
        proof (cases "is_interesting n \<and> responses \<noteq> []")
          case False
          with nofalse assms Inr gr responses Some
          have "persist_update_notice n (t_id t) w1 = (r, w')"
            by (auto simp: respond_to_update_notice_def)
          with Inr Some f1 show ?thesis by (intro quiet[of t w1 cs1]) simp_all
        next
          case True
          obtain r2 w2 where ur: "update_responses e n responses w1 = (r2, w2)"
            by (cases "update_responses e n responses w1")
          from update_responses_frame[OF ur] obtain cs2 where f2:
            "notice_table w2 = notice_table w1" "response_table w2 = response_table w1"
            "map t_id (transient_table w2) = map t_id (transient_table w1)"
            "map t_astrophysical (transient_table w2) = map t_astrophysical (transient_table w1)"
            "calls w2 = calls w1 @ cs2" "filter is_notifier_send cs2 = []"
            by auto
          have c2: "calls w2 = calls w @ (cs1 @ cs2)" "filter is_notifier_send (cs1 @ cs2) = []"
            using f1 f2 by simp_all
          show ?thesis
          proof (cases r2)
            case (Inl err)
            with assms Inr gr responses Some nofalse True ur have "r = Inl err" "w' = w2"
              by (auto simp: respond_to_update_notice_def)
            with f1 f2 c2 show ?thesis by (intro failed[of err "cs1 @ cs2"]) simp_all
          next
            case updated: (Inr u2)
            obtain r3 w3 where nu: "notify_update_event e n responses w2 = (r3, w3)"
              by (cases "notify_update_event e n responses w2")
            from assms Inr gr responses Some nofalse True ur updated nu
            have res: "\<And>err. r3 = Inl err \<Longrightarrow> r = Inl err \<and> w' = w3"
              "\<And>u. r3 = Inr u \<Longrightarrow> persist_update_notice n (t_id t) w3 = (r, w')"
              by (auto simp: respond_to_update_notice_def)
            show ?thesis
            proof (cases "updated_event_message n")
              case (Inl err)
              with nu have "r3 = Inl err" "w3 = w2" by (simp_all add: notify_update_event_def)
              with res have "r = Inl err" "w' = w2" by simp_all
              with f1 f2 c2 show ?thesis by (intro failed[of err "cs1 @ cs2"]) simp_all
            next
              case rendered: (Inr body)
              show ?thesis
              proof (cases "join (map r_obs_id responses)")
                case (Inl err)
                with rendered nu have "r3 = Inl err" "w3 = w2"
                  by (simp_all add: notify_update_event_def)
                with res have "r = Inl err" "w' = w2" by simp_all
                with f1 f2 c2 show ?thesis by (intro failed[of err "cs1 @ cs2"]) simp_all
              next
                case joined: (Inr ids)
                with rendered nu
                have "send_all (notifiers e) 0 (UpdatedEventMessage body ids) w2 = (r3, w3)"
                  by (simp add: notify_update_event_def)
                with Inr Some f1 f2 c2 res show ?thesis
                  by (intro notified[of t w2 "cs1 @ cs2" "UpdatedEventMessage body ids" r3 w3])
                    simp_all
              qed
            qed
          qed
        qed
      qed
    qed
  qed
qed

lemma filter_sends_of_sends:
  "filter is_notifier_send (map (\<lambda>k. NotifierSend k msg) ks) = map (\<lambda>k. NotifierSend k msg) ks"
  "filter is_scheduler_update (map (\<lambda>k. NotifierSend k msg) ks) = []"
  by (induction ks) simp_all

lemma is_new_notice_Inr:
  assumes "is_new_notice w n = Inr new"
  shows "bind_int (notice_id n) = None"
    "new = (filter (\<lambda>r. n_trigger_id r = notice_id n) (notice_table w) = [])"
  using assms
  by (auto simp: is_new_notice_def Notice_get_def get_def bind_parameters_None
      split: sum.splits option.splits)

lemma is_new_notice_after_row:
  assumes "bind_int (notice_id n) = None"
    and "notice_table w' = rows @ [row]" and "n_trigger_id row = notice_id n"
  shows "is_new_notice w' n = Inr False"
  using assms by (simp add: is_new_notice_def Notice_get_def get_def)

text \<open>Processing that returns has appended one notice row; processing that raises none.\<close>

lemma respond_to_new_notice_rows:
  assumes "respond_to_new_notice e n w = (r, w')"
  shows "r \<noteq> Inr () \<Longrightarrow> notice_table w' = notice_table w"
    and "r = Inr () \<Longrightarrow> \<exists>tid. notice_table w' = notice_table w @
          [\<lparr>n_id = lastrowid (map n_id (notice_table w)),
            n_trigger_id = notice_id n,
            n_transient_id = Some tid,
            n_trigger_time = event_time n,
            n_observatory = observatory n,
            n_instrument = instrument n,
            n_ra_deg = ra (coords n),
            n_dec_deg = dec (coords n),
            n_pos_error_deg = coords_error_deg n\<rparr>]"
    and "take (length (transient_table w)) (transient_table w') = transient_table w"
    and "length (transient_table w') \<le> Suc (length (transient_table w))"
    and "\<exists>cs. calls w' = calls w @ cs \<and> filter is_scheduler_update cs = []"
    and "unlinked w \<Longrightarrow> unlinked w'"
proof -
  have "(r \<noteq> Inr () \<longrightarrow> notice_table w' = notice_table w)
    \<and> (r = Inr () \<longrightarrow> (\<exists>tid. notice_table w' = notice_table w @
          [\<lparr>n_id = lastrowid (map n_id (notice_table w)),
            n_trigger_id = notice_id n,
            n_transient_id = Some tid,
            n_trigger_time = event_time n,
            n_observatory = observatory n,
            n_instrument = instrument n,
            n_ra_deg = ra (coords n),
            n_dec_deg = dec (coords n),
            n_pos_error_deg = coords_error_deg n\<rparr>]))
    \<and> take (length (transient_table w)) (transient_table w') = transient_table w
    \<and> length (transient_table w') \<le> Suc (length (transient_table w))
    \<and> (\<exists>cs. calls w' = calls w @ cs \<and> filter is_scheduler_update cs = [])
    \<and> (unlinked w \<longrightarrow> unlinked w')"
    using assms
  proof (cases rule: new_notice_stages)
    case (direct t)
    from persist_new_notice_frame[OF direct] persist_new_notice_failed[OF direct]
      persist_new_notice_done[of n t w w'] direct
    show ?thesis by (auto simp: unlinked_def)
  next
    case (failed err)
    then show ?thesis by (auto simp: unlinked_def)
  next
    case (notified obs body w2 r3 w3)
    from send_all_frame[OF notified(6)] obtain j where f3:
      "notice_table w3 = notice_table w2" "transient_table w3 = transient_table w2"
      "response_table w3 = response_table w2"
      "calls w3 = calls w2 @ map (\<lambda>k. NotifierSend k (NewEventMessage body obs)) [0..<0 + j]"
      by auto
    have "calls w3 = calls w @
        (SchedulerAdd n # map (\<lambda>k. NotifierSend k (NewEventMessage body obs)) [0..<0 + j])"
      using f3 notified(5) by simp
    moreover have "filter is_scheduler_update
        (SchedulerAdd n # map (\<lambda>k. NotifierSend k (NewEventMessage body obs)) [0..<0 + j]) = []"
      by (simp add: filter_sends_of_sends)
    ultimately have c3: "\<exists>cs. calls w3 = calls w @ cs \<and> filter is_scheduler_update cs = []"
      by blast
    have t3: "notice_table w3 = notice_table w" "transient_table w3 = transient_table w"
      using f3 notified(2,3) by simp_all
    have u3: "unlinked w \<longrightarrow> unlinked w3"
      using f3 notified(4) by (simp add: unlinked_def)
    show ?thesis
    proof (cases r3)
      case (Inl err)
      with notified(7) have "r = Inl err" "w' = w3" by simp_all
      with t3 c3 u3 show ?thesis by auto
    next
      case (Inr u)
      with notified(8) have p: "persist_new_notice n None w3 = (r, w')" by simp
      note pf = persist_new_notice_frame[OF p]
      have c': "\<exists>cs. calls w' = calls w @ cs \<and> filter is_scheduler_update cs = []"
        using c3 pf(2) by simp
      have u': "unlinked w \<longrightarrow> unlinked w'"
        using u3 pf(1) by (simp add: unlinked_def)
      have tt: "take (length (transient_table w)) (transient_table w') = transient_table w"
        "length (transient_table w') \<le> Suc (length (transient_table w))"
        using pf(3,4) t3 by simp_all
      have n1: "r \<noteq> Inr () \<longrightarrow> notice_table w' = notice_table w"
        using persist_new_notice_failed[OF p] t3 by simp
      have n2: "r = Inr () \<longrightarrow> (\<exists>tid. notice_table w' = notice_table w @
          [\<lparr>n_id = lastrowid (map n_id (notice_table w)),
            n_trigger_id = notice_id n,
            n_transient_id = Some tid,
            n_trigger_time = event_time n,
            n_observatory = observatory n,
            n_instrument = instrument n,
            n_ra_deg = ra (coords n),
            n_dec_deg = dec (coords n),
            n_pos_error_deg = coords_error_deg n\<rparr>])"
        using persist_new_notice_done[of n None w3 w'] p t3 by auto
      from c' u' tt n1 n2 show ?thesis by blast
    qed
  qed
  then show "r \<noteq> Inr () \<Longrightarrow> notice_table w' = notice_table w"
    and "r = Inr () \<Longrightarrow> \<exists>tid. notice_table w' = notice_table w @
          [\<lparr>n_id = lastrowid (map n_id (notice_table w)),
            n_trigger_id = notice_id n,
            n_transient_id = Some tid,
            n_trigger_time = event_time n,
            n_observatory = observatory n,
            n_instrument = instrument n,
            n_ra_deg = ra (coords n),
            n_dec_deg = dec (coords n),
            n_pos_error_deg = coords_error_deg n\<rparr>]"
    and "take (length (transient_table w)) (transient_table w') = transient_table w"
    and "length (transient_table w') \<le> Suc (length (transient_table w))"
    and "\<exists>cs. calls w' = calls w @ cs \<and> filter is_scheduler_update cs = []"
    and "unlinked w \<Longrightarrow> unlinked w'"
    by blast+
qed

lemma respond_to_update_notice_rows:
  assumes "respond_to_update_notice e n w = (r, w')"
  shows "r \<noteq> Inr () \<Longrightarrow> notice_table w' = notice_table w"
    and "r = Inr () \<Longrightarrow> \<exists>tid. notice_table w' = notice_table w @
          [\<lparr>n_id = lastrowid (map n_id (notice_table w)),
            n_trigger_id = notice_id n,
            n_transient_id = Some tid,
            n_trigger_time = event_time n,
            n_observatory = observatory n,
            n_instrument = instrument n,
            n_ra_deg = ra (coords n),
            n_dec_deg = dec (coords n),
            n_pos_error_deg = coords_error_deg n\<rparr>]"
    and "map t_id (transient_table w') = map t_id (transient_table w)"
    and "astrophysical n \<Longrightarrow>
           map t_astrophysical (transient_table w') = map t_astrophysical (transient_table w)"
    and "response_table w' = response_table w"
proof -
  have "(r \<noteq> Inr () \<longrightarrow> notice_table w' = notice_table w)
    \<and> (r = Inr () \<longrightarrow> (\<exists>tid. notice_table w' = notice_table w @
          [\<lparr>n_id = lastrowid (map n_id (notice_table w)),
            n_trigger_id = notice_id n,
            n_transient_id = Some tid,
            n_trigger_time = event_time n,
            n_observatory = observatory n,
            n_instrument = instrument n,
            n_ra_deg = ra (coords n),
            n_dec_deg = dec (coords n),
            n_pos_error_deg = coords_error_deg n\<rparr>]))
    \<and> map t_id (transient_table w') = map t_id (transient_table w)
    \<and> (astrophysical n \<longrightarrow>
           map t_astrophysical (transient_table w') = map t_astrophysical (transient_table w))
    \<and> response_table w' = response_table w"
    using assms
  proof (cases rule: update_notice_stages)
    case (failed err cs)
    then show ?thesis by auto
  next
    case (quiet t w1 cs)
    from persist_update_notice_frame[OF quiet(2)] persist_update_notice_failed[OF quiet(2)]
      persist_update_notice_done[of n "t_id t" w1 w'] quiet
    show ?thesis by auto
  next
    case (notified t w2 cs msg r3 w3)
    from send_all_frame[OF notified(8)] have f3:
      "notice_table w3 = notice_table w2" "transient_table w3 = transient_table w2"
      "response_table w3 = response_table w2"
      by auto
    show ?thesis
    proof (cases r3)
      case (Inl err)
      with notified(9) have "r = Inl err" "w' = w3" by simp_all
      with f3 notified(2-5) show ?thesis by auto
    next
      case (Inr u)
      with notified(10) have p: "persist_update_notice n (t_id t) w3 = (r, w')" by simp
      from persist_update_notice_frame[OF p] persist_update_notice_failed[OF p]
        persist_update_notice_done[of n "t_id t" w3 w'] p f3 notified(2-5)
      show ?thesis by auto
    qed
  qed
  then show "r \<noteq> Inr () \<Longrightarrow> notice_table w' = notice_table w"
    and "r = Inr () \<Longrightarrow> \<exists>tid. notice_table w' = notice_table w @
          [\<lparr>n_id = lastrowid (map n_id (notice_table w)),
            n_trigger_id = notice_id n,
            n_transient_id = Some tid,
            n_trigger_time = event_time n,
            n_observatory = observatory n,
            n_instrument = instrument n,
            n_ra_deg = ra (coords n),
            n_dec_deg = dec (coords n),
            n_pos_error_deg = coords_error_deg n\<rparr>]"
    and "map t_id (transient_table w') = map t_id (transient_table w)"
    and "astrophysical n \<Longrightarrow>
           map t_astrophysical (transient_table w') = map t_astrophysical (transient_table w)"
    and "response_table w' = response_table w"
    by blast+
qed

lemma respond_cases:
  assumes "respond e n w = (r, w')"
  obtains
    (unbound) err where "is_new_notice w n = Inl err" "r = Inl err" "w' = w"
  | (new) "is_new_notice w n = Inr True" "respond_to_new_notice e n w = (r, w')"
  | (update) "is_new_notice w n = Inr False" "respond_to_update_notice e n w = (r, w')"
proof (cases "is_new_notice w n")
  case (Inl err)
  with assms have "r = Inl err" "w' = w" by (simp_all add: respond_def)
  with Inl show ?thesis by (rule unbound)
next
  case (Inr b)
  show ?thesis
  proof (cases b)
    case True
    with Inr assms show ?thesis by (intro new) (simp_all add: respond_def)
  next
    case False
    with Inr assms show ?thesis by (intro update) (simp_all add: respond_def)
  qed
qed

lemma respond_rows:
  assumes "respond e n w = (r, w')"
  shows "r \<noteq> Inr () \<Longrightarrow> notice_table w' = notice_table w"
    and "r = Inr () \<Longrightarrow> \<exists>tid. notice_table w' = notice_table w @
          [\<lparr>n_id = lastrowid (map n_id (notice_table w)),
            n_trigger_id = notice_id n,
            n_transient_id = Some tid,
            n_trigger_time = event_time n,
            n_observatory = observatory n,
            n_instrument = instrument n,
            n_ra_deg = ra (coords n),
            n_dec_deg = dec (coords n),
            n_pos_error_deg = coords_error_deg n\<rparr>]"
    and "r = Inr () \<Longrightarrow> bind_int (notice_id n) = None"
  using assms
  by (cases rule: respond_cases;
      auto dest: respond_to_new_notice_rows(1,2) respond_to_update_notice_rows(1,2)
        is_new_notice_Inr(1))+

lemma respond_keeps_flags:
  assumes "astrophysical n"
  shows "map t_astrophysical
           (take (length (transient_table w)) (transient_table (snd (respond e n w))))
         = map t_astrophysical (transient_table w)"
proof -
  obtain r w' where run: "respond e n w = (r, w')" by (cases "respond e n w")
  from run have "map t_astrophysical (take (length (transient_table w)) (transient_table w'))
         = map t_astrophysical (transient_table w)"
  proof (cases rule: respond_cases)
    case (unbound err)
    then show ?thesis by simp
  next
    case new
    from respond_to_new_notice_rows(3)[OF new(2)] show ?thesis by simp
  next
    case update
    from respond_to_update_notice_rows(4)[OF update(2) assms]
    have flags: "map t_astrophysical (transient_table w') = map t_astrophysical (transient_table w)" .
    then have "length (transient_table w') = length (transient_table w)"
      by (rule map_eq_imp_length_eq)
    with flags show ?thesis by simp
  qed
  with run show ?thesis by simp
qed

lemma EinsteinJsonNotice_astrophysical:
  assumes "EinsteinJsonNotice lib payload = Inr n"
  shows "astrophysical n"
  using assms by (auto simp: EinsteinJsonNotice_def split: sum.splits)

subsection \<open>Runs from the empty database\<close>






lemma fan_out_tail:
  assumes "calls w2 = calls w @ cs" and "filter is_notifier_send cs = []"
    and "send_all (notifiers e) 0 M w2 = (r3, w3)"
    and "calls w' = calls w3"
    and "NotifierSend k msg \<in> set (drop (length (calls w)) (calls w'))"
    and "\<forall>send\<in>set (notifiers e). send msg \<noteq> SendRaises"
  shows "msg = M" and "r3 = Inr ()"
    and "filter is_notifier_send (drop (length (calls w)) (calls w')) =
           map (\<lambda>j. NotifierSend j msg) [0..<length (notifiers e)]"
proof -
  from send_all_frame[OF assms(3)] obtain j where
    j: "calls w3 = calls w2 @ map (\<lambda>k. NotifierSend k M) [0..<0 + j]" by auto
  with assms(1,4) have "drop (length (calls w)) (calls w') =
      cs @ map (\<lambda>k. NotifierSend k M) [0..<0 + j]" by simp
  with assms(5) have "NotifierSend k msg \<in> set cs
      \<or> NotifierSend k msg \<in> set (map (\<lambda>k. NotifierSend k M) [0..<0 + j])" by auto
  moreover have "NotifierSend k msg \<notin> set cs"
    using assms(2) by (auto simp: filter_empty_conv)
  ultimately show same: "msg = M" by auto
  with assms(6) have "\<forall>send\<in>set (notifiers e). send M \<noteq> SendRaises" by simp
  from send_all_no_raise[OF this, of 0 w2] assms(3)
  have complete: "r3 = Inr ()"
    "w3 = w2\<lparr>calls := calls w2 @ map (\<lambda>k. NotifierSend k M) [0..<0 + length (notifiers e)]\<rparr>"
    by simp_all
  show "r3 = Inr ()" by (rule complete(1))
  from complete(2) assms(1,4) have "drop (length (calls w)) (calls w') =
      cs @ map (\<lambda>k. NotifierSend k M) [0..<length (notifiers e)]" by simp
  with assms(2) same show "filter is_notifier_send (drop (length (calls w)) (calls w')) =
           map (\<lambda>j. NotifierSend j msg) [0..<length (notifiers e)]"
    by (simp add: filter_sends_of_sends)
qed

lemma fetchone_in_set: "fetchone rows = Some r \<Longrightarrow> r \<in> set rows"
  by (auto simp: fetchone_def split: list.splits)

lemma known_transient_match_in_table:
  assumes "known_transient_match w n = Inr (Some t)"
  shows "t \<in> set (transient_table w)"
proof -
  from assms obtain s f where
    "fetchone (Transient_search w (ra (coords n)) (dec (coords n)) 0.5 s f) = Some t"
    by (auto simp: known_transient_match_def split: sum.splits)
  from fetchone_in_set[OF this] show ?thesis
    by (auto simp: Transient_search_def Let_def)
qed

lemmas responder_defs =
  respond_def respond_to_new_notice_def respond_to_update_notice_def
  is_new_notice_def known_transient_def known_transient_match_def
  timedelta_add_def datetime_min_def datetime_max_def thirty_minutes_def
  get_transient_def get_responses_def
  persist_new_notice_def persist_update_notice_def
  notify_new_event_def notify_update_event_def
  new_event_message_def updated_event_message_def coordinates_message_def
  schedule_early_follow_up_def is_interesting_def

lemmas database_defs =
  bind_int_def bind_json_def bind_obs_def
  get_def fetchone_def lastrowid_def Notice_get_def Notice_add_def
  Response_get_def Response_add_def Transient_get_def Transient_add_def
  update_def Transient_update_def Transient_set_false_alarm_def
  Transient_search_def between_def
  record_call_def Observation_add_def Observation_get_def Observation_update_def

lemmas scenario_defs =
  empty_world_def einstein_notice_def refined_notice_def retraction_notice_def
  array_instrument_notice_def plane_notice_def working_env_def raising_env_def
  rejecting_env_def dedup_transient_def dedup_store_def false_alarm_store_def
  nearby_notice_def orphan_store_def after_first_notice_def

lemma first_notice_run:
  "respond working_env einstein_notice empty_world = (Inr (), after_first_notice)"
  by (simp add: responder_defs database_defs scenario_defs Let_def)

lemma replayed_notice_run:
  "respond working_env einstein_notice after_first_notice =
     (Inr (), after_first_notice\<lparr>notice_table :=
        [\<lparr>n_id = 1, n_trigger_id = 100, n_transient_id = Some 1, n_trigger_time = 0,
          n_observatory = ''Einstein Probe'', n_instrument = JStr ''WXT'',
          n_ra_deg = 120, n_dec_deg = 40, n_pos_error_deg = JFloat 0.02\<rparr>,
         \<lparr>n_id = 2, n_trigger_id = 100, n_transient_id = Some 1, n_trigger_time = 0,
          n_observatory = ''Einstein Probe'', n_instrument = JStr ''WXT'',
          n_ra_deg = 120, n_dec_deg = 40, n_pos_error_deg = JFloat 0.02\<rparr>]\<rparr>)"
  by (simp add: responder_defs database_defs scenario_defs Let_def)

lemmas more_defs = tracked_world_def after_refused_notice_def after_raising_send_def after_retraction_def


lemma update_event_fan_out_run:
  "respond rejecting_env refined_notice tracked_world =
     (Inr (),
      \<lparr>notice_table =
        [\<lparr>n_id = 1, n_trigger_id = 100, n_transient_id = Some 1, n_trigger_time = 0,
          n_observatory = ''Einstein Probe'', n_instrument = JStr ''WXT'',
          n_ra_deg = 120, n_dec_deg = 40, n_pos_error_deg = JFloat 0.02\<rparr>,
         \<lparr>n_id = 2, n_trigger_id = 100, n_transient_id = Some 1, n_trigger_time = 0,
          n_observatory = ''Einstein Probe'', n_instrument = JStr ''WXT'',
          n_ra_deg = 120.01, n_dec_deg = 40.01, n_pos_error_deg = JFloat 0.02\<rparr>],
       transient_table =
        [\<lparr>t_id = 1, t_event_time = 0, t_ra_deg = 120.01, t_dec_deg = 40.01,
          t_pos_error_deg = JFloat 0.02, t_astrophysical = 1\<rparr>],
       response_table = [\<lparr>r_id = 1, r_obs_id = ObsStr ''7'', r_transient_id = Some 1\<rparr>],
       calls = [SchedulerGet (ObsStr ''7''),
                SchedulerUpdate (ObsStr ''7'') (120.01 / 15) 40.01,
                NotifierSend 0 (UpdatedEventMessage refined_notice [''7'']),
                NotifierSend 1 (UpdatedEventMessage refined_notice [''7''])]\<rparr>)"
  by (simp add: responder_defs database_defs scenario_defs more_defs Let_def)

lemma einstein_payload_parses:
  "EinsteinJsonNotice stub_library einstein_payload =
     Inr (einstein_notice\<lparr>notice_id := 1708973486\<rparr>)"
  by (simp add: EinsteinJsonNotice_def parse_id_def parse_instrument_def parse_event_time_def
      parse_image_snr_def parse_coordinates_def parse_coordinates_error_def get_value_def
      get_dict_value_def dict_get_def py_int_def stub_library_def einstein_payload_def
      einstein_notice_def)

lemma ra_condition_wrapped:
  fixes ra_deg range_deg r :: real
  assumes "0 \<le> ra_deg" "ra_deg \<le> 360" "0 \<le> range_deg" "range_deg \<le> 180"
  shows "ra_deg - range_deg < 0 \<Longrightarrow>
           (between r 0 (ra_deg + range_deg) \<or> between r (360 + (ra_deg - range_deg)) 360)
             = ra_in_wrapped_box (ra_deg - range_deg) (ra_deg + range_deg) r"
    and "\<not> ra_deg - range_deg < 0 \<Longrightarrow> ra_deg + range_deg > 360 \<Longrightarrow>
           (between r 0 (ra_deg + range_deg - 360) \<or> between r (ra_deg - range_deg) 360)
             = ra_in_wrapped_box (ra_deg - range_deg) (ra_deg + range_deg) r"
  using assms unfolding ra_in_wrapped_box_def between_def by auto

section \<open>Claims\<close>


text \<open>
  Claim C2, as stated, fails: a new, astrophysical and interesting notice that the search
  matches to a stored transient, and whose instrument (or position error) is a JSON array,
  is not persisted. \<^verbatim>\<open>Notice.add\<close> raises when it binds the value, and the database is
  left without a notice row for it.
\<close>

theorem unbindable_notice_is_not_persisted:
  "is_new_notice dedup_store (nearby_notice\<lparr>instrument := JArr [JStr ''WXT'']\<rparr>) = Inr True
   \<and> astrophysical (nearby_notice\<lparr>instrument := JArr [JStr ''WXT'']\<rparr>)
   \<and> is_interesting (nearby_notice\<lparr>instrument := JArr [JStr ''WXT'']\<rparr>)
   \<and> known_transient_match dedup_store (nearby_notice\<lparr>instrument := JArr [JStr ''WXT'']\<rparr>)
       = Inr (Some dedup_transient)
   \<and> respond working_env (nearby_notice\<lparr>instrument := JArr [JStr ''WXT'']\<rparr>) dedup_store
       = (Inl ProgrammingError, dedup_store)
   \<and> notice_table dedup_store = []
   \<and> known_transient_match dedup_store (nearby_notice\<lparr>coords_error_deg := JArr [JFloat 0.02]\<rparr>)
       = Inr (Some dedup_transient)
   \<and> respond working_env (nearby_notice\<lparr>coords_error_deg := JArr [JFloat 0.02]\<rparr>) dedup_store
       = (Inl ProgrammingError, dedup_store)"
  by (simp add: responder_defs database_defs scenario_defs Let_def)

text \<open>
  Claim C2, amended. For a new notice that is astrophysical and interesting, that the
  search matches to a stored transient, and whose instrument and position error are values
  SQLite binds, processing returns and its whole effect is one notice row under the id of
  the matched transient: no call to the scheduler or to a notifier, no transient row, no
  response row.
\<close>

theorem known_transient_binds_notice:
  assumes "is_new_notice w n = Inr True" and "astrophysical n" and "is_interesting n"
    and "known_transient_match w n = Inr (Some t)"
    and "bind_json (instrument n) = None" and "bind_json (coords_error_deg n) = None"
  shows "t \<in> set (transient_table w)
    \<and> respond e n w =
        (Inr (), w\<lparr>notice_table := notice_table w @
           [\<lparr>n_id = lastrowid (map n_id (notice_table w)),
             n_trigger_id = notice_id n,
             n_transient_id = Some (t_id t),
             n_trigger_time = event_time n,
             n_observatory = observatory n,
             n_instrument = instrument n,
             n_ra_deg = ra (coords n),
             n_dec_deg = dec (coords n),
             n_pos_error_deg = coords_error_deg n\<rparr>]\<rparr>)"
proof -
  note idok = is_new_notice_Inr(1)[OF assms(1)]
  have known: "known_transient w n = Inr (Some (t_id t))"
    using assms(4) by (simp add: known_transient_def)
  have "respond e n w = persist_new_notice n (Some (t_id t)) w"
    using assms(1-3) known by (simp add: respond_def respond_to_new_notice_def)
  moreover have "persist_new_notice n (Some (t_id t)) w =
        (Inr (), w\<lparr>notice_table := notice_table w @
           [\<lparr>n_id = lastrowid (map n_id (notice_table w)),
             n_trigger_id = notice_id n,
             n_transient_id = Some (t_id t),
             n_trigger_time = event_time n,
             n_observatory = observatory n,
             n_instrument = instrument n,
             n_ra_deg = ra (coords n),
             n_dec_deg = dec (coords n),
             n_pos_error_deg = coords_error_deg n\<rparr>]\<rparr>)"
    using idok assms(5,6) by (simp add: persist_new_notice_def Notice_add_def Let_def)
  ultimately show ?thesis using known_transient_match_in_table[OF assms(4)] by simp
qed

text \<open>
  Claim C2, amended, on the de-duplication scenario: the notice at 60.2/45.1 ten minutes
  after the transient at 60.0/45.0 is stored under transient 1.
\<close>

theorem known_transient_binds_notice_witness:
  "is_new_notice dedup_store nearby_notice = Inr True
   \<and> astrophysical nearby_notice \<and> is_interesting nearby_notice
   \<and> known_transient_match dedup_store nearby_notice = Inr (Some dedup_transient)
   \<and> bind_json (instrument nearby_notice) = None
   \<and> bind_json (coords_error_deg nearby_notice) = None
   \<and> respond working_env nearby_notice dedup_store =
        (Inr (), dedup_store\<lparr>notice_table :=
           [\<lparr>n_id = 1, n_trigger_id = 200, n_transient_id = Some 1,
             n_trigger_time = 600000000, n_observatory = ''Einstein Probe'',
             n_instrument = JStr ''WXT'', n_ra_deg = 60.2, n_dec_deg = 45.1,
             n_pos_error_deg = JFloat 0.02\<rparr>]\<rparr>)"
proof -
  have a: "is_new_notice dedup_store nearby_notice = Inr True"
    by (simp add: is_new_notice_def Notice_get_def get_def bind_int_def scenario_defs)
  have b: "astrophysical nearby_notice" and c: "is_interesting nearby_notice"
    by (simp_all add: nearby_notice_def is_interesting_def)
  have d: "known_transient_match dedup_store nearby_notice = Inr (Some dedup_transient)"
    by (simp add: responder_defs database_defs scenario_defs)
  have f: "bind_json (instrument nearby_notice) = None"
    and g: "bind_json (coords_error_deg nearby_notice) = None"
    by (simp_all add: bind_json_def nearby_notice_def)
  from known_transient_binds_notice[OF a b c d f g, of working_env] a b c d f g
  show ?thesis by (simp add: scenario_defs lastrowid_def)
qed

text \<open>
  Claim C3. Every response row must reference an existing transient row. On the code the
  response row of a newly scheduled follow-up is written with a \<^verbatim>\<open>NULL\<close> transient id,
  before the transient row exists: after the first notice of the end-to-end scenario the
  response row references no transient, while the transient and the notice row carry id 1.
\<close>

theorem response_row_without_transient:
  "respond working_env einstein_notice empty_world = (Inr (), after_first_notice)
   \<and> map r_transient_id (response_table after_first_notice) = [None]
   \<and> map t_id (transient_table after_first_notice) = [1]
   \<and> map n_transient_id (notice_table after_first_notice) = [Some 1]"
  using first_notice_run by (simp add: after_first_notice_def)

text \<open>
  Claim C4. For a box centred at a right ascension of \<open>[0, 360]\<close> with a range of at most
  180 degrees whose RA interval crosses 0 or 360, the search returns exactly the stored
  transients whose right ascension lies in the box re-based modulo 360, whose declination
  lies in the declination interval and whose event time lies in the time window.
\<close>

theorem search_ra_wraparound:
  assumes "0 \<le> ra_deg" "ra_deg \<le> 360" "0 \<le> range_deg" "range_deg \<le> 180"
    and "ra_deg - range_deg < 0 \<or> ra_deg + range_deg > 360"
  shows "Transient_search w ra_deg dec_deg range_deg start_time end_time =
           filter (\<lambda>r. ra_in_wrapped_box (ra_deg - range_deg) (ra_deg + range_deg) (t_ra_deg r)
                       \<and> between (t_dec_deg r) (dec_deg - range_deg) (dec_deg + range_deg)
                       \<and> between (t_event_time r) start_time end_time)
             (transient_table w)"
proof (cases "ra_deg - range_deg < 0")
  case True
  show ?thesis
    unfolding Transient_search_def Let_def
    using True ra_condition_wrapped(1)[OF assms(1-4) True]
    by (auto intro!: filter_cong)
next
  case False
  with assms(5) have gt: "ra_deg + range_deg > 360" by simp
  show ?thesis
    unfolding Transient_search_def Let_def
    using False gt ra_condition_wrapped(2)[OF assms(1-4) False gt]
    by (auto intro!: filter_cong)
qed

text \<open>
  Claim C4 on the box centred at 1.0 with range 2.0: it selects the transient at 359.5 and
  not the one at 180.
\<close>

theorem search_ra_wraparound_witness:
  "(0::real) \<le> 1 \<and> (1::real) \<le> 360 \<and> (0::real) \<le> 2 \<and> (2::real) \<le> 180
   \<and> ((1::real) - 2 < 0 \<or> (1::real) + 2 > 360)
   \<and> map t_ra_deg (Transient_search meridian_store 1 0 2 (- 5) 5) = [359.5]
   \<and> map t_ra_deg (transient_table meridian_store) = [359.5, 180]"
  using search_ra_wraparound [of 1 2 meridian_store 0 "- 5" 5]
  by (simp add: meridian_store_def ra_in_wrapped_box_def between_def)

text \<open>
  Claim C5, as stated, fails: a processing that raises writes no notice row, so the replay
  of the notice is classified as new again. With a first notifier that raises, the first
  processing of the end-to-end notice leaves no notice row. With an instrument that
  \<^verbatim>\<open>Notice.add\<close> cannot bind, each processing of the notice in the galactic plane adds a
  transient row and no notice row: after the replay there are two transient rows.
\<close>

theorem failed_processing_is_replayed_as_new:
  "respond raising_env einstein_notice empty_world = (Inl RequestException, after_raising_send)
   \<and> notice_table after_raising_send = []
   \<and> is_new_notice after_raising_send einstein_notice = Inr True
   \<and> respond working_env plane_notice empty_world = (Inl ProgrammingError, after_refused_notice)
   \<and> notice_table after_refused_notice = []
   \<and> is_new_notice after_refused_notice plane_notice = Inr True
   \<and> respond working_env plane_notice after_refused_notice =
       (Inl ProgrammingError,
        after_refused_notice\<lparr>transient_table :=
          [\<lparr>t_id = 1, t_event_time = 0, t_ra_deg = 266.4, t_dec_deg = - 29,
            t_pos_error_deg = JFloat 0.02, t_astrophysical = 1\<rparr>,
           \<lparr>t_id = 2, t_event_time = 0, t_ra_deg = 266.4, t_dec_deg = - 29,
            t_pos_error_deg = JFloat 0.02, t_astrophysical = 1\<rparr>]\<rparr>)"
  by (simp add: responder_defs database_defs scenario_defs more_defs Let_def)

text \<open>
  Claim C5, amended. When the first processing of a notice returns, it has appended exactly
  one notice row with the trigger id; processing the same notice again is then classified as
  an update, creates no transient row, and appends exactly one notice row if it returns
  and none if it raises.
\<close>

theorem trigger_replay:
  assumes "respond e1 n w = (Inr (), w1)"
  shows "is_new_notice w1 n = Inr False
    \<and> respond e2 n w1 = respond_to_update_notice e2 n w1
    \<and> map t_id (transient_table (snd (respond e2 n w1))) = map t_id (transient_table w1)
    \<and> (\<exists>tid. notice_table w1 = notice_table w @
          [\<lparr>n_id = lastrowid (map n_id (notice_table w)),
            n_trigger_id = notice_id n,
            n_transient_id = Some tid,
            n_trigger_time = event_time n,
            n_observatory = observatory n,
            n_instrument = instrument n,
            n_ra_deg = ra (coords n),
            n_dec_deg = dec (coords n),
            n_pos_error_deg = coords_error_deg n\<rparr>])
    \<and> (\<exists>tid. notice_table (snd (respond e2 n w1)) =
          (case fst (respond e2 n w1) of
             Inl err \<Rightarrow> notice_table w1
           | Inr u \<Rightarrow> notice_table w1 @
              [\<lparr>n_id = lastrowid (map n_id (notice_table w1)),
                n_trigger_id = notice_id n,
                n_transient_id = Some tid,
                n_trigger_time = event_time n,
                n_observatory = observatory n,
                n_instrument = instrument n,
                n_ra_deg = ra (coords n),
                n_dec_deg = dec (coords n),
                n_pos_error_deg = coords_error_deg n\<rparr>]))"
proof -
  from respond_rows(2,3)[OF assms] obtain tid where
    row1: "notice_table w1 = notice_table w @
          [\<lparr>n_id = lastrowid (map n_id (notice_table w)),
            n_trigger_id = notice_id n,
            n_transient_id = Some tid,
            n_trigger_time = event_time n,
            n_observatory = observatory n,
            n_instrument = instrument n,
            n_ra_deg = ra (coords n),
            n_dec_deg = dec (coords n),
            n_pos_error_deg = coords_error_deg n\<rparr>]"
    and idok: "bind_int (notice_id n) = None" by auto
  have old: "is_new_notice w1 n = Inr False"
    by (rule is_new_notice_after_row[OF idok row1]) simp
  then have upd: "respond e2 n w1 = respond_to_update_notice e2 n w1"
    by (simp add: respond_def)
  obtain r2 w2 where run2: "respond e2 n w1 = (r2, w2)" by (cases "respond e2 n w1")
  with upd have second: "respond_to_update_notice e2 n w1 = (r2, w2)" by simp
  have ids: "map t_id (transient_table w2) = map t_id (transient_table w1)"
    by (rule respond_to_update_notice_rows(3)[OF second])
  have rows2: "\<exists>tid. notice_table w2 =
          (case r2 of
             Inl err \<Rightarrow> notice_table w1
           | Inr u \<Rightarrow> notice_table w1 @
              [\<lparr>n_id = lastrowid (map n_id (notice_table w1)),
                n_trigger_id = notice_id n,
                n_transient_id = Some tid,
                n_trigger_time = event_time n,
                n_observatory = observatory n,
                n_instrument = instrument n,
                n_ra_deg = ra (coords n),
                n_dec_deg = dec (coords n),
                n_pos_error_deg = coords_error_deg n\<rparr>])"
  proof (cases r2)
    case (Inl err)
    with respond_rows(1)[OF run2] show ?thesis by simp
  next
    case (Inr u)
    with respond_rows(2)[OF run2] show ?thesis by simp
  qed
  have ex1: "\<exists>tid. notice_table w1 = notice_table w @
          [\<lparr>n_id = lastrowid (map n_id (notice_table w)),
            n_trigger_id = notice_id n,
            n_transient_id = Some tid,
            n_trigger_time = event_time n,
            n_observatory = observatory n,
            n_instrument = instrument n,
            n_ra_deg = ra (coords n),
            n_dec_deg = dec (coords n),
            n_pos_error_deg = coords_error_deg n\<rparr>]"
    using row1 by blast
  have parts: "fst (respond e2 n w1) = r2" "snd (respond e2 n w1) = w2"
    using run2 by simp_all
  show ?thesis
    unfolding parts by (intro conjI) (fact old, fact upd, fact ids, fact ex1, fact rows2)
qed

text \<open>
  Claim C5, amended, on the end-to-end scenario processed twice from the empty database.
\<close>

theorem trigger_replay_witness:
  "respond working_env einstein_notice empty_world = (Inr (), after_first_notice)
   \<and> is_new_notice after_first_notice einstein_notice = Inr False
   \<and> respond working_env einstein_notice after_first_notice =
       (Inr (), after_first_notice\<lparr>notice_table :=
        [\<lparr>n_id = 1, n_trigger_id = 100, n_transient_id = Some 1, n_trigger_time = 0,
          n_observatory = ''Einstein Probe'', n_instrument = JStr ''WXT'',
          n_ra_deg = 120, n_dec_deg = 40, n_pos_error_deg = JFloat 0.02\<rparr>,
         \<lparr>n_id = 2, n_trigger_id = 100, n_transient_id = Some 1, n_trigger_time = 0,
          n_observatory = ''Einstein Probe'', n_instrument = JStr ''WXT'',
          n_ra_deg = 120, n_dec_deg = 40, n_pos_error_deg = JFloat 0.02\<rparr>]\<rparr>)
   \<and> map t_id (transient_table (snd (respond working_env einstein_notice after_first_notice)))
       = [1]"
proof -
  note replay = trigger_replay[OF first_notice_run, of working_env]
  have "map t_id (transient_table after_first_notice) = [1]"
    by (simp add: after_first_notice_def)
  with replay first_notice_run replayed_notice_run show ?thesis by simp
qed

text \<open>
  Claim C6. A notice is interesting exactly when the magnitude of its galactic latitude is
  strictly greater than 4.0 degrees: a latitude of exactly 4.0 (or -4.0) degrees is not
  interesting, one of 4.1 (or -4.1) degrees is.
\<close>

theorem interesting_iff_latitude_above_four:
  "is_interesting n = (galactic_b (coords n) < - 4 \<or> 4 < galactic_b (coords n))
   \<and> \<not> is_interesting (n\<lparr>coords := (coords n)\<lparr>galactic_b := 4.0\<rparr>\<rparr>)
   \<and> \<not> is_interesting (n\<lparr>coords := (coords n)\<lparr>galactic_b := - 4.0\<rparr>\<rparr>)
   \<and> is_interesting (n\<lparr>coords := (coords n)\<lparr>galactic_b := 4.1\<rparr>\<rparr>)
   \<and> is_interesting (n\<lparr>coords := (coords n)\<lparr>galactic_b := - 4.1\<rparr>\<rparr>)"
  by (auto simp: is_interesting_def)

text \<open>
  Claim C7, as stated, fails. A notifier whose \<^verbatim>\<open>send\<close> raises ends the processing:
  the second notifier is never invoked and no notice row is written. And when a notifier
  returns a failure response and every notifier has been invoked, the notice row is still
  not written if \<^verbatim>\<open>Notice.add\<close> cannot bind the instrument.
\<close>

theorem notifier_failure_blocks_notice_row:
  "length (notifiers raising_env) = 2
   \<and> (notifiers raising_env ! 0) (NewEventMessage einstein_notice (ObsInt 7)) = SendRaises
   \<and> respond raising_env einstein_notice empty_world =
       (Inl RequestException,
        \<lparr>notice_table = [],
         transient_table = [],
         response_table = [\<lparr>r_id = 1, r_obs_id = ObsInt 7, r_transient_id = None\<rparr>],
         calls = [SchedulerAdd einstein_notice,
                  NotifierSend 0 (NewEventMessage einstein_notice (ObsInt 7))]\<rparr>)
   \<and> (notifiers rejecting_env ! 0) (NewEventMessage array_instrument_notice (ObsInt 7))
       = HttpResponse 500
   \<and> respond rejecting_env array_instrument_notice empty_world =
       (Inl ProgrammingError,
        \<lparr>notice_table = [],
         transient_table =
           [\<lparr>t_id = 1, t_event_time = 0, t_ra_deg = 120, t_dec_deg = 40,
             t_pos_error_deg = JFloat 0.02, t_astrophysical = 1\<rparr>],
         response_table = [\<lparr>r_id = 1, r_obs_id = ObsInt 7, r_transient_id = None\<rparr>],
         calls = [SchedulerAdd array_instrument_notice,
                  NotifierSend 0 (NewEventMessage array_instrument_notice (ObsInt 7)),
                  NotifierSend 1 (NewEventMessage array_instrument_notice (ObsInt 7))]\<rparr>)"
  by (simp add: responder_defs database_defs scenario_defs Let_def)

text \<open>
  Claim C7, amended. Whenever processing a notice, new or update, invokes a notifier, and
  no notifier's \<^verbatim>\<open>send\<close> raises on the message (a failure is a returned failure
  response), every configured notifier is invoked on that message, in order; and when, in
  addition, the instrument and the position error of the notice are values SQLite binds,
  processing returns and the notice row is written.
\<close>

theorem notifier_failure_response_does_not_block:
  assumes "NotifierSend k msg \<in> set (drop (length (calls w)) (calls (snd (respond e n w))))"
    and "\<forall>send\<in>set (notifiers e). send msg \<noteq> SendRaises"
  shows "filter is_notifier_send (drop (length (calls w)) (calls (snd (respond e n w)))) =
           map (\<lambda>j. NotifierSend j msg) [0..<length (notifiers e)]
    \<and> (bind_json (instrument n) = None \<and> bind_json (coords_error_deg n) = None \<longrightarrow>
         fst (respond e n w) = Inr ()
         \<and> (\<exists>tid. notice_table (snd (respond e n w)) = notice_table w @
              [\<lparr>n_id = lastrowid (map n_id (notice_table w)),
                n_trigger_id = notice_id n,
                n_transient_id = Some tid,
                n_trigger_time = event_time n,
                n_observatory = observatory n,
                n_instrument = instrument n,
                n_ra_deg = ra (coords n),
                n_dec_deg = dec (coords n),
                n_pos_error_deg = coords_error_deg n\<rparr>]))"
proof -
  obtain r w' where run: "respond e n w = (r, w')" by (cases "respond e n w")
  with assms(1) have sent: "NotifierSend k msg \<in> set (drop (length (calls w)) (calls w'))"
    by simp
  from run have "filter is_notifier_send (drop (length (calls w)) (calls w')) =
           map (\<lambda>j. NotifierSend j msg) [0..<length (notifiers e)]
      \<and> (bind_json (instrument n) = None \<and> bind_json (coords_error_deg n) = None
           \<longrightarrow> r = Inr ())"
  proof (cases rule: respond_cases)
    case (unbound err)
    with sent show ?thesis by simp
  next
    case new
    note idok = is_new_notice_Inr(1)[OF new(1)]
    from new(2) show ?thesis
    proof (cases rule: new_notice_stages)
      case (direct t)
      from persist_new_notice_frame(2)[OF direct] sent show ?thesis by simp
    next
      case (failed err)
      with sent show ?thesis by auto
    next
      case (notified obs body w2 r3 w3)
      have same: "calls w' = calls w3"
      proof (cases r3)
        case (Inl err)
        with notified(7) show ?thesis by simp
      next
        case (Inr u)
        with notified(8) persist_new_notice_frame(2) show ?thesis by blast
      qed
      have quiet: "filter is_notifier_send [SchedulerAdd n] = []" by simp
      note tail = fan_out_tail[OF notified(5) quiet notified(6) same sent assms(2)]
      from tail(2) notified(8) have p: "persist_new_notice n None w3 = (r, w')" by simp
      have "r = Inr ()"
        if "bind_json (instrument n) = None" and "bind_json (coords_error_deg n) = None"
        using persist_new_notice_binds[OF idok that, of None w3] p by simp
      with tail(3) show ?thesis by simp
    qed
  next
    case update
    note idok = is_new_notice_Inr(1)[OF update(1)]
    from update(2) show ?thesis
    proof (cases rule: update_notice_stages)
      case (failed err cs)
      with sent show ?thesis by (auto simp: filter_empty_conv)
    next
      case (quiet t w1 cs)
      from persist_update_notice_frame(2)[OF quiet(2)] quiet(7,8) sent
      show ?thesis by (auto simp: filter_empty_conv)
    next
      case (notified t w2 cs M r3 w3)
      have same: "calls w' = calls w3"
      proof (cases r3)
        case (Inl err)
        with notified(9) show ?thesis by simp
      next
        case (Inr u)
        with notified(10) persist_update_notice_frame(2) show ?thesis by blast
      qed
      note tail = fan_out_tail[OF notified(6,7,8) same sent assms(2)]
      from tail(2) notified(10) have p: "persist_update_notice n (t_id t) w3 = (r, w')" by simp
      have "r = Inr ()"
        if "bind_json (instrument n) = None" and "bind_json (coords_error_deg n) = None"
        using persist_update_notice_binds[OF idok that, of "t_id t" w3] p by simp
      with tail(3) show ?thesis by simp
    qed
  qed
  with run respond_rows(2)[OF run] show ?thesis by auto
qed

text \<open>
  Claim C7, amended, on the end-to-end scenario with a first notifier that returns
  HTTP 500: the second notifier is invoked and the notice row is written.
\<close>

theorem notifier_failure_response_does_not_block_witness:
  "(notifiers rejecting_env ! 0) (NewEventMessage einstein_notice (ObsInt 7)) = HttpResponse 500
   \<and> filter is_notifier_send
        (drop (length (calls empty_world))
           (calls (snd (respond rejecting_env einstein_notice empty_world)))) =
       [NotifierSend 0 (NewEventMessage einstein_notice (ObsInt 7)),
        NotifierSend 1 (NewEventMessage einstein_notice (ObsInt 7))]
   \<and> fst (respond rejecting_env einstein_notice empty_world) = Inr ()
   \<and> notice_table (snd (respond rejecting_env einstein_notice empty_world)) =
        [\<lparr>n_id = 1, n_trigger_id = 100, n_transient_id = Some 1, n_trigger_time = 0,
          n_observatory = ''Einstein Probe'', n_instrument = JStr ''WXT'',
          n_ra_deg = 120, n_dec_deg = 40, n_pos_error_deg = JFloat 0.02\<rparr>]"
proof -
  have run: "respond rejecting_env einstein_notice empty_world = (Inr (), after_first_notice)"
    by (simp add: responder_defs database_defs scenario_defs Let_def)
  have sent: "NotifierSend 0 (NewEventMessage einstein_notice (ObsInt 7))
      \<in> set (drop (length (calls empty_world))
           (calls (snd (respond rejecting_env einstein_notice empty_world))))"
    using run by (simp add: empty_world_def after_first_notice_def)
  have noraise: "\<forall>send\<in>set (notifiers rejecting_env).
      send (NewEventMessage einstein_notice (ObsInt 7)) \<noteq> SendRaises"
    by (simp add: rejecting_env_def)
  have f: "bind_json (instrument einstein_notice) = None"
    and g: "bind_json (coords_error_deg einstein_notice) = None"
    by (simp_all add: bind_json_def einstein_notice_def)
  have up: "[0..<length (notifiers rejecting_env)] = [0, 1]"
    by (simp add: rejecting_env_def upt_conv_Cons)
  have first: "(notifiers rejecting_env ! 0) (NewEventMessage einstein_notice (ObsInt 7))
      = HttpResponse 500"
    by (simp add: rejecting_env_def)
  from notifier_failure_response_does_not_block[OF sent noraise] f g up first run
  show ?thesis by (simp add: after_first_notice_def)
qed

text \<open>
  Claim C8. When the trigger id of a notice has a stored notice row but no transient row
  is found for it, processing ends with the error raised by reading the id of the missing
  transient, and the database and the trace of calls are left as they were.
\<close>

theorem update_without_transient_aborts:
  assumes "is_new_notice w n = Inr False" and "get_transient w n = Inr None"
  shows "respond e n w = (Inl AttributeError, w)"
  using assms by (simp add: respond_def respond_to_update_notice_def get_responses_def)

text \<open>
  Claim C8 on a notice row of trigger 100 that names transient 5 in a database without
  transient rows.
\<close>

theorem update_without_transient_aborts_witness:
  "is_new_notice orphan_store einstein_notice = Inr False
   \<and> get_transient orphan_store einstein_notice = Inr None
   \<and> respond working_env einstein_notice orphan_store = (Inl AttributeError, orphan_store)"
proof -
  have a: "is_new_notice orphan_store einstein_notice = Inr False"
    by (simp add: is_new_notice_def Notice_get_def get_def bind_int_def scenario_defs)
  have b: "get_transient orphan_store einstein_notice = Inr None"
    by (simp add: get_transient_def Notice_get_def Transient_get_def get_def fetchone_def
        bind_int_def scenario_defs)
  from a b update_without_transient_aborts[OF a b, of working_env] show ?thesis by simp
qed

text \<open>
  Claim C9. Every notice the Einstein JSON parser produces has \<open>astrophysical = True\<close>,
  so the condition of the false-alarm branch is false for it, and processing it changes the
  astrophysical flag of no stored transient, in any database and with any collaborators.
\<close>

theorem einstein_notice_always_astrophysical:
  assumes "EinsteinJsonNotice lib payload = Inr n"
  shows "astrophysical n
    \<and> \<not> (t_astrophysical t \<noteq> 0 \<and> \<not> astrophysical n)
    \<and> map t_astrophysical
          (take (length (transient_table w)) (transient_table (snd (respond e n w))))
        = map t_astrophysical (transient_table w)
    \<and> map t_astrophysical
          (take (length (transient_table w))
             (transient_table (snd (EinsteinResponder_respond lib e payload w))))
        = map t_astrophysical (transient_table w)"
proof -
  have a: "astrophysical n" by (rule EinsteinJsonNotice_astrophysical[OF assms])
  have "EinsteinResponder_respond lib e payload w = respond e n w"
    using assms by (simp add: EinsteinResponder_respond_def)
  with a respond_keeps_flags[OF a, of w e] show ?thesis by simp
qed

text \<open>
  Claim C9 on a payload of the stream, processed in a database whose only transient is a
  false alarm.
\<close>

theorem einstein_notice_always_astrophysical_witness:
  "EinsteinJsonNotice stub_library einstein_payload =
     Inr (einstein_notice\<lparr>notice_id := 1708973486\<rparr>)
   \<and> astrophysical (einstein_notice\<lparr>notice_id := 1708973486\<rparr>)
   \<and> map t_astrophysical (take (length (transient_table false_alarm_store))
        (transient_table (snd (EinsteinResponder_respond stub_library working_env
           einstein_payload false_alarm_store)))) = [0]"
proof -
  note run = einstein_notice_always_astrophysical[OF einstein_payload_parses,
      where w = false_alarm_store and e = working_env
        and t = "hd (transient_table false_alarm_store)"]
  have "map t_astrophysical (transient_table false_alarm_store) = [0]"
    by (simp add: false_alarm_store_def)
  with run einstein_payload_parses show ?thesis by simp
qed

text \<open>
  Claim C10. The search does not look at the astrophysical flag: in a database whose only
  transient is a false alarm inside the box and the time window, a new astrophysical and
  interesting notice is matched to it, so that no follow-up is scheduled, no notification
  is sent and no response row is written, whatever the collaborators.
\<close>

theorem search_matches_false_alarm_transient:
  "map t_astrophysical (transient_table false_alarm_store) = [0]
   \<and> is_new_notice false_alarm_store nearby_notice = Inr True
   \<and> astrophysical nearby_notice
   \<and> is_interesting nearby_notice
   \<and> known_transient false_alarm_store nearby_notice = Inr (Some 1)
   \<and> respond e nearby_notice false_alarm_store =
       (Inr (), false_alarm_store\<lparr>notice_table :=
           [\<lparr>n_id = 1, n_trigger_id = 200, n_transient_id = Some 1,
             n_trigger_time = 600000000, n_observatory = ''Einstein Probe'',
             n_instrument = JStr ''WXT'', n_ra_deg = 60.2, n_dec_deg = 45.1,
             n_pos_error_deg = JFloat 0.02\<rparr>]\<rparr>)
   \<and> calls (snd (respond e nearby_notice false_alarm_store)) = []
   \<and> response_table (snd (respond e nearby_notice false_alarm_store)) = []"
  by (simp add: responder_defs database_defs scenario_defs Let_def)

end
